theory Spec2Isabelle
  imports Main "HOL-Library.Sublist"
begin

section \<open>Strings\<close>

text \<open>
  JavaScript strings are modelled as \<^typ>\<open>string\<close>, a list of characters; one \<^typ>\<open>char\<close>
  stands for one code unit in the range U+0000 to U+00FF, so \<open>length\<close> is the
  \<^verbatim>\<open>.length\<close> of the source and \<open>take\<close> is \<^verbatim>\<open>slice(0, n)\<close>.
  A value that may be \<^verbatim>\<open>undefined\<close> is a \<^typ>\<open>string option\<close>.
\<close>

definition toLowerChar :: "char \<Rightarrow> char" where
  "toLowerChar c =
     (let n = (of_char c :: nat)
      in if (65 \<le> n \<and> n \<le> 90) \<or> (192 \<le> n \<and> n \<le> 222 \<and> n \<noteq> 215)
         then char_of (n + 32) else c)"

definition toLowerCase :: "string \<Rightarrow> string" where
  "toLowerCase s = map toLowerChar s"

text \<open>The white space and line terminators that \<^verbatim>\<open>String.prototype.trim\<close> removes,
  as far as they lie in the modelled range: TAB, LF, VT, FF, CR, SPACE and NBSP.\<close>

definition isWhiteSpace :: "char \<Rightarrow> bool" where
  "isWhiteSpace c = ((of_char c :: nat) \<in> {9, 10, 11, 12, 13, 32, 160})"

definition trim :: "string \<Rightarrow> string" where
  "trim s = rev (dropWhile isWhiteSpace (rev (dropWhile isWhiteSpace s)))"

fun startsWith :: "string \<Rightarrow> string \<Rightarrow> bool" where
  "startsWith s [] = True"
| "startsWith [] (c # p) = False"
| "startsWith (x # s) (c # p) = (x = c \<and> startsWith s p)"

text \<open>\<^verbatim>\<open>s.includes(t)\<close>: \<open>t\<close> occurs in \<open>s\<close> as a contiguous run.\<close>

fun str_includes :: "string \<Rightarrow> string \<Rightarrow> bool" where
  "str_includes [] t = startsWith [] t"
| "str_includes (x # s) t = (startsWith (x # s) t \<or> str_includes s t)"

text \<open>\<^verbatim>\<open>s.split(c)\<close> for a separator of one character. The result is never empty:
  the empty string splits into one empty piece.\<close>

fun str_split :: "char \<Rightarrow> string \<Rightarrow> string list" where
  "str_split c [] = [[]]"
| "str_split c (x # xs) =
     (if x = c then [] # str_split c xs
      else (case str_split c xs of
              [] \<Rightarrow> [[x]]
            | p # ps \<Rightarrow> (x # p) # ps))"


text \<open>\<^verbatim>\<open>s.replace(/^['"]|['"]$/g, "")\<close>: one quote character (U+0027 or U+0022) is
  removed from the front, and one from the end of what is left.\<close>

definition isQuote :: "char \<Rightarrow> bool" where
  "isQuote c = (c = CHR 0x27 \<or> c = CHR 0x22)"

definition strip_quotes :: "string \<Rightarrow> string" where
  "strip_quotes s =
     (let s1 = (case s of [] \<Rightarrow> [] | c # r \<Rightarrow> if isQuote c then r else s)
      in if s1 \<noteq> [] \<and> isQuote (last s1) then butlast s1 else s1)"

section \<open>Fuzzy specialty matching\<close>

subsection \<open>levenshteinDistance\<close>

text \<open>
  The source keeps \<^verbatim>\<open>matrix\<close> as an array of rows and fills it with three loops.
  A row is a \<^typ>\<open>nat list\<close>; \<open>set_at xs i v\<close> is the assignment \<^verbatim>\<open>xs[i] = v\<close>, which
  overwrites an existing element and, at \<open>i = length xs\<close>, appends. The loops never assign
  beyond the end of a row and never read a cell before it is written, which is what the
  loop lemmas below establish on the way. Each \<^verbatim>\<open>for\<close> loop is a \<open>fold\<close> over its
  index range.
\<close>

definition set_at :: "'a list \<Rightarrow> nat \<Rightarrow> 'a \<Rightarrow> 'a list" where
  "set_at xs i v = (if i < length xs then xs[i := v] else xs @ [v])"

text \<open>The body of the inner loop: the value stored into \<^verbatim>\<open>matrix[i][j]\<close>.\<close>

definition cell :: "string \<Rightarrow> string \<Rightarrow> nat list list \<Rightarrow> nat \<Rightarrow> nat \<Rightarrow> nat" where
  "cell a b matrix i j =
     (if a ! (i - 1) = b ! (j - 1) then matrix ! (i - 1) ! (j - 1)
      else min (matrix ! (i - 1) ! j + 1)
             (min (matrix ! i ! (j - 1) + 1) (matrix ! (i - 1) ! (j - 1) + 1)))"

definition levenshteinDistance :: "string \<Rightarrow> string \<Rightarrow> nat" where
  "levenshteinDistance a b =
     (if a = [] then length b
      else if b = [] then length a
      else
        let ia = length a; ib = length b;
            matrix0 = fold (\<lambda>i matrix. set_at matrix i [i]) [0..<Suc ia] [];
            matrix1 = fold (\<lambda>j matrix. matrix[0 := set_at (matrix ! 0) j j]) [0..<Suc ib] matrix0;
            matrix2 =
              fold (\<lambda>i matrix.
                 fold (\<lambda>j matrix. matrix[i := set_at (matrix ! i) j (cell a b matrix i j)])
                   [1..<Suc ib] matrix)
                [1..<Suc ia] matrix1
        in matrix2 ! ia ! ib)"

subsection \<open>The textbook recurrence\<close>

text \<open>
  The reference the source is compared with, written from the specification's words: the
  table over \<open>(length a + 1) \<times> (length b + 1)\<close> entries with \<open>D i 0 = i\<close>, \<open>D 0 j = j\<close> and
  every other entry the least of a deletion, an insertion and a substitution, each of
  cost 1, the substitution being free where the two characters agree.
\<close>

fun edit_table :: "'a list \<Rightarrow> 'a list \<Rightarrow> nat \<Rightarrow> nat \<Rightarrow> nat" where
  "edit_table a b 0 j = j"
| "edit_table a b (Suc i) 0 = Suc i"
| "edit_table a b (Suc i) (Suc j) =
     min (edit_table a b i (Suc j) + 1)
       (min (edit_table a b (Suc i) j + 1)
          (edit_table a b i j + (if a ! i = b ! j then 0 else 1)))"

definition table_row :: "'a list \<Rightarrow> 'a list \<Rightarrow> nat \<Rightarrow> nat \<Rightarrow> nat list" where
  "table_row a b i n = map (edit_table a b i) [0..<n]"

text \<open>The same table computed row by row from its predecessor, for evaluation.\<close>

fun first_row :: "nat \<Rightarrow> 'a list \<Rightarrow> nat list" where
  "first_row n [] = [n]"
| "first_row n (y # ys) = n # first_row (n + 1) ys"

fun row_cells :: "'a \<Rightarrow> 'a list \<Rightarrow> nat \<Rightarrow> nat \<Rightarrow> nat list \<Rightarrow> nat list" where
  "row_cells x (y # ys) diag left (up # prev) =
     (let v = min (up + 1) (min (left + 1) (diag + (if x = y then 0 else 1)))
      in v # row_cells x ys up v prev)"
| "row_cells x ys diag left prev = []"

fun table_rows :: "'a list \<Rightarrow> 'a list \<Rightarrow> nat \<Rightarrow> nat list \<Rightarrow> nat list" where
  "table_rows (x # xs) b i (p # prev) =
     table_rows xs b (i + 1) ((i + 1) # row_cells x b p (i + 1) prev)"
| "table_rows xs b i prev = prev"

subsection \<open>findDoctorsByFuzzySpecialty\<close>

text \<open>
  A document of the \<^verbatim>\<open>Doctors\<close> collection. \<^verbatim>\<open>Specialization\<close> is the array of
  specialty strings; a document without the field, or with a value that is not an array,
  contributes no specialty and is the empty list here.
\<close>

record doctor =
  doc_Name :: string
  doc_Specialization :: "string list"
  doc_OrgID :: string

text \<open>\<^verbatim>\<open>x.toLowerCase().trim().replace(/^['"]|['"]$/g, "")\<close>, applied to the classified
  specialty and to every specialty of a doctor.\<close>

definition normalise :: "string \<Rightarrow> string" where
  "normalise x = strip_quotes (trim (toLowerCase x))"

text \<open>The predicate passed to \<^verbatim>\<open>arr.some\<close>; \<open>target\<close> is already normalised.\<close>

definition specialtyMatches :: "string \<Rightarrow> string \<Rightarrow> bool" where
  "specialtyMatches target spec =
     (let s = normalise spec;
          dist = levenshteinDistance s target;
          substringCheck = (str_includes s target \<or> str_includes target s)
      in dist \<le> 3 \<or> substringCheck)"

text \<open>\<open>doctors\<close> is the content of the \<^verbatim>\<open>Doctors\<close> collection; the query keeps the
  documents of the tenant, and an empty query result returns at once.\<close>

definition findDoctorsByFuzzySpecialty :: "doctor list \<Rightarrow> string \<Rightarrow> string \<Rightarrow> doctor list" where
  "findDoctorsByFuzzySpecialty doctors specialty orgId =
     (let snap = filter (\<lambda>d. doc_OrgID d = orgId) doctors
      in if snap = [] then []
         else
           let target = normalise specialty
           in filter (\<lambda>data. list_ex (specialtyMatches target) (doc_Specialization data)) snap)"

section \<open>Label decoding\<close>

text \<open>A labelled form value has the shape \<^verbatim>\<open><index>_<value>\<close>. \<open>None\<close> is a missing
  field; a missing field and the empty string are both falsy and give the fallback, which
  the source takes as a defaulted parameter and every caller passes.\<close>

definition parseYesNo :: "string option \<Rightarrow> string \<Rightarrow> string" where
  "parseYesNo val fallback =
     (case val of
        None \<Rightarrow> fallback
      | Some v \<Rightarrow>
          if v = [] then fallback
          else let parts = str_split CHR ''_'' v
               in if length parts > 1 then parts ! 1 else v)"

definition parseNumberFromLabel :: "string option \<Rightarrow> string \<Rightarrow> string" where
  "parseNumberFromLabel val fallback =
     (case val of
        None \<Rightarrow> fallback
      | Some v \<Rightarrow>
          if v = [] then fallback
          else let parts = str_split CHR ''_'' v
               in if length parts > 1 then parts ! 1 else v)"

section \<open>Tenant configuration and the LLM boundary\<close>

text \<open>
  The object that \<^verbatim>\<open>loadOrganizationConfig\<close> builds from an \<^verbatim>\<open>Organisation\<close> document.
  The two array fields \<^verbatim>\<open>services\<close> and \<^verbatim>\<open>doctorList\<close> are read by none of the functions
  modelled here and are left out. A string field that the source treats as absent when
  falsy is the empty string.
\<close>

record org_config =
  cfg_orgId :: string
  cfg_orgName :: string
  cfg_whatsappToken :: string
  cfg_whatsappPhoneId :: string
  cfg_verifyToken :: string
  cfg_billingActive :: bool
  cfg_billingPlan :: string
  cfg_knowledgeUrl :: string
  cfg_orgLogo :: string
  cfg_orgRef :: nat

text \<open>A turn of a conversation; \<open>turn_content = None\<close> is a \<^verbatim>\<open>null\<close> content.\<close>

record turn =
  turn_role :: string
  turn_content :: "string option"

text \<open>
  The argument of \<^verbatim>\<open>openai.createChatCompletion\<close>: model, messages, the temperature as the
  source writes it (\<open>None\<close> when not given) and the names of the functions offered.
  The provider is an oracle: a function from the request to what came back. \<open>ApiError\<close>
  is a rejected promise; \<open>NoChoice\<close> an answer whose \<^verbatim>\<open>choices[0]\<close> is missing;
  \<open>FunctionCall name arguments\<close> a choice whose message carries a \<^verbatim>\<open>function_call\<close>;
  \<open>Message content\<close> any other choice, with its \<^verbatim>\<open>message.content\<close>. Every function that
  calls the provider returns the list of requests it sent next to its result.
\<close>

record chat_request =
  req_model :: string
  req_messages :: "turn list"
  req_temperature :: "string option"
  req_functions :: "string list"

datatype completion =
    ApiError
  | NoChoice
  | FunctionCall string string
  | Message "string option"

section \<open>Knowledge lookup\<close>





text \<open>\<^verbatim>\<open>completion.data.choices?.[0]?.message?.content?.trim() || ""\<close>.\<close>

definition replyText :: "completion \<Rightarrow> string" where
  "replyText completion = (case completion of Message (Some t) \<Rightarrow> trim t | _ \<Rightarrow> [])"





section \<open>The document store\<close>

text \<open>
  Firestore is modelled by the collections the functions below touch. A collection whose
  documents get generated ids (\<^verbatim>\<open>add\<close>) is a list, and the position of a document is its
  reference; \<^verbatim>\<open>add\<close> appends, so a new document never takes the place of an old one, and
  nothing modelled here deletes a document. A query with \<^verbatim>\<open>limit(1)\<close> yields the first
  match in that order. A collection written with \<^verbatim>\<open>doc(id).set(...)\<close> is a map from the
  id. Sub-collections are kept beside their parents, keyed by the parent's reference,
  since Firestore lets them exist without the parent document. Time is read from the
  environment: \<open>now\<close> is the value of \<^verbatim>\<open>getCurrentIndianTime()\<close> during a call.
\<close>

type_synonym timestamp = nat

datatype fieldval =
    RefPoC nat
  | RefDoc string string
  | Str string
  | Num int
  | Obj "(string \<times> fieldval) list"

record notification =
  ntf_from :: string
  ntf_message :: string
  ntf_timestamp :: timestamp
  ntf_seen :: bool
  ntf_event :: string
  ntf_references :: "(string \<times> fieldval) list"

text \<open>A transcript entry. The spread \<^verbatim>\<open>...extraFields\<close> is, at every call in the source,
  either empty or the single field \<^verbatim>\<open>Msg_Image\<close>.\<close>

record chat_msg =
  chat_Direction :: string
  chat_From :: string
  chat_To :: string
  chat_Msg_Type :: string
  chat_Msg_Body :: string
  chat_Timestamp :: timestamp
  chat_Msg_Image :: "string option"

record patient =
  pat_Name :: string
  pat_Gender :: string
  pat_Age :: int
  pat_Relation :: string
  pat_DOB :: "timestamp option"
  pat_createdAt :: timestamp
  pat_updatedAt :: "timestamp option"

text \<open>A document of \<^verbatim>\<open>PoC\<close>. A field that older documents lack is optional.\<close>

record poc =
  poc_Name :: string
  poc_Phone :: string
  poc_BotMode :: "bool option"
  poc_addedBy :: "string option"
  poc_Created_Timestamp :: "timestamp option"
  poc_lastSeen :: "timestamp option"
  poc_registered :: "bool option"
  poc_chatState :: "turn list option"
  poc_Gender :: "string option"
  poc_DOB :: "timestamp option"
  poc_Address :: "string option"
  poc_Age :: "int option"
  poc_updatedAt :: "timestamp option"

record org_doc =
  org_OrgID :: string
  org_Name :: string
  org_OrgName :: string
  org_WA_Token :: string
  org_WA_Phone_ID :: string
  org_FB_Number :: string
  org_WA_Verify_Token :: string
  org_BillingActive :: bool
  org_BillingPlan :: string
  org_Knowledge_URL :: string
  org_OrgLogo :: string

record checkin =
  chk_CheckinID :: string
  chk_PoCRef :: nat
  chk_phone :: string
  chk_checkinTime :: timestamp
  chk_OrgID :: string

record feedback =
  fb_Recommend :: string
  fb_Comments :: string
  fb_Staff_Experience :: string
  fb_Doctor_consultation :: string
  fb_Overall_Experience :: string
  fb_submittedAt :: timestamp

text \<open>Of an \<^verbatim>\<open>Appointment\<close> document, the fields that the feedback flow reads or writes;
  the patient and date fields play no part here.\<close>

record appointment =
  apt_AppointmentID :: string
  apt_PoCRef :: nat
  apt_userPhone :: string
  apt_doctorName :: string
  apt_status :: string
  apt_FlowToken :: string
  apt_OrgID :: string
  apt_feedback :: "feedback option"

record ticket =
  tic_TicketID :: string
  tic_PoCRef :: nat
  tic_description :: "string option"
  tic_urgency :: string
  tic_category :: string
  tic_status :: string
  tic_createdAt :: timestamp
  tic_OrgID :: string

text \<open>A request POSTed to the messaging provider: the sender's phone-number id and token,
  and the payload, a text (\<^verbatim>\<open>to\<close>, \<^verbatim>\<open>text.body\<close>) or a template (\<^verbatim>\<open>to\<close>, name, text
  parameters in order).\<close>

datatype wa_payload =
    TextPayload string "string option"
  | TemplatePayload string string "string list"

record wa_request =
  wa_phoneId :: string
  wa_token :: string
  wa_payload :: wa_payload

record store =
  PoC :: "poc list"
  Chat :: "nat \<Rightarrow> chat_msg list"
  Patients :: "nat \<Rightarrow> patient list"
  Organisation :: "org_doc list"
  Appointment :: "nat \<Rightarrow> (string \<times> appointment) list"
  Ticket :: "nat \<Rightarrow> string \<rightharpoonup> ticket"
  Checkin :: "nat \<Rightarrow> string \<rightharpoonup> checkin"
  Notifications :: "nat \<Rightarrow> notification list"
  organizationConfigs :: "string \<rightharpoonup> org_config"
  sent :: "wa_request list"
  openaiRequests :: "chat_request list"

text \<open>The position of the first element that satisfies \<open>P\<close>.\<close>

fun first_index :: "('a \<Rightarrow> bool) \<Rightarrow> 'a list \<Rightarrow> nat option" where
  "first_index P [] = None"
| "first_index P (x # xs) = (if P x then Some 0 else map_option Suc (first_index P xs))"

text \<open>\<^verbatim>\<open>a || b\<close> on strings.\<close>

definition or_else :: "string \<Rightarrow> string \<Rightarrow> string" where
  "or_else a b = (if a = [] then b else a)"

subsection \<open>Configuration, references, notifications\<close>

definition loadOrganizationConfig :: "string \<Rightarrow> store \<Rightarrow> org_config option \<times> store" where
  "loadOrganizationConfig orgId s =
     (case organizationConfigs s orgId of
        Some config \<Rightarrow> (Some config, s)
      | None \<Rightarrow>
          (case first_index (\<lambda>d. org_OrgID d = orgId) (Organisation s) of
             None \<Rightarrow> (None, s)
           | Some i \<Rightarrow>
               let orgData = Organisation s ! i;
                   config =
                     \<lparr>cfg_orgId = orgId,
                      cfg_orgName = or_else (org_Name orgData) (or_else (org_OrgName orgData) orgId),
                      cfg_whatsappToken = org_WA_Token orgData,
                      cfg_whatsappPhoneId = or_else (org_WA_Phone_ID orgData) (org_FB_Number orgData),
                      cfg_verifyToken = or_else (org_WA_Verify_Token orgData) ''default_verify_token'',
                      cfg_billingActive = org_BillingActive orgData,
                      cfg_billingPlan = or_else (org_BillingPlan orgData) ''Basic'',
                      cfg_knowledgeUrl = org_Knowledge_URL orgData,
                      cfg_orgLogo = org_OrgLogo orgData,
                      cfg_orgRef = i\<rparr>
               in (Some config, s\<lparr>organizationConfigs := (organizationConfigs s)(orgId \<mapsto> config)\<rparr>)))"

definition getOrganisationRef :: "string \<Rightarrow> store \<Rightarrow> nat option" where
  "getOrganisationRef orgId s = first_index (\<lambda>d. org_OrgID d = orgId) (Organisation s)"

definition createNotification ::
  "timestamp \<Rightarrow> nat option \<Rightarrow> string \<Rightarrow> string \<Rightarrow> string \<Rightarrow> (string \<times> fieldval) list
     \<Rightarrow> store \<Rightarrow> store" where
  "createNotification now orgRef from message event references s =
     (case orgRef of
        None \<Rightarrow> s
      | Some r \<Rightarrow>
          let notificationData =
                \<lparr>ntf_from = from, ntf_message = message, ntf_timestamp = now,
                 ntf_seen = False, ntf_event = event, ntf_references = references\<rparr>
          in s\<lparr>Notifications := (Notifications s)(r := Notifications s r @ [notificationData])\<rparr>)"

text \<open>\<^verbatim>\<open>pocRef.update\<close> fails on a missing document; the failure is caught and logged.\<close>

definition updatePoCLastSeen :: "timestamp \<Rightarrow> nat \<Rightarrow> store \<Rightarrow> store" where
  "updatePoCLastSeen now pocRef s =
     (if pocRef < length (PoC s)
      then s\<lparr>PoC := (PoC s)[pocRef := (PoC s ! pocRef)\<lparr>poc_lastSeen := Some now\<rparr>]\<rparr>
      else s)"

subsection \<open>Outbound messages\<close>

text \<open>Every caller discards the boolean these functions return, so they return the
  store alone; \<open>sent\<close> grows when the request is issued, whatever the provider answers.\<close>

definition sendWhatsAppMessage :: "string \<Rightarrow> string option \<Rightarrow> string \<Rightarrow> store \<Rightarrow> store" where
  "sendWhatsAppMessage to message orgId s =
     (case loadOrganizationConfig orgId s of
        (None, s1) \<Rightarrow> s1
      | (Some orgConfig, s1) \<Rightarrow>
          if cfg_whatsappToken orgConfig = [] \<or> cfg_whatsappPhoneId orgConfig = [] then s1
          else s1\<lparr>sent := sent s1 @
                 [\<lparr>wa_phoneId = cfg_whatsappPhoneId orgConfig,
                   wa_token = cfg_whatsappToken orgConfig,
                   wa_payload = TextPayload to message\<rparr>]\<rparr>)"

definition sendWelcomeTemplate :: "string \<Rightarrow> string \<Rightarrow> string \<Rightarrow> store \<Rightarrow> store" where
  "sendWelcomeTemplate userPhone pocName orgId s =
     (case loadOrganizationConfig orgId s of
        (None, s1) \<Rightarrow> s1
      | (Some orgConfig, s1) \<Rightarrow>
          s1\<lparr>sent := sent s1 @
            [\<lparr>wa_phoneId = cfg_whatsappPhoneId orgConfig,
              wa_token = cfg_whatsappToken orgConfig,
              wa_payload = TemplatePayload userPhone ''welcome''
                [cfg_orgName orgConfig, cfg_orgName orgConfig, pocName]\<rparr>]\<rparr>)"

subsection \<open>Contacts and transcripts\<close>

definition getOrCreatePoCByPhone ::
  "timestamp \<Rightarrow> string \<Rightarrow> string \<Rightarrow> string \<Rightarrow> store \<Rightarrow> nat \<times> store" where
  "getOrCreatePoCByPhone now phone contactName orgId s =
     (case first_index (\<lambda>d. poc_Phone d = phone \<and> poc_addedBy d = Some orgId) (PoC s) of
        Some pocRef \<Rightarrow> (pocRef, updatePoCLastSeen now pocRef s)
      | None \<Rightarrow>
          let safeName = contactName;
              newDoc = length (PoC s);
              s1 = s\<lparr>PoC := PoC s @
                     [\<lparr>poc_Name = safeName, poc_Phone = phone, poc_BotMode = Some True,
                       poc_addedBy = Some orgId, poc_Created_Timestamp = Some now,
                       poc_lastSeen = Some now, poc_registered = Some False,
                       poc_chatState = None, poc_Gender = None, poc_DOB = None,
                       poc_Address = None, poc_Age = None, poc_updatedAt = None\<rparr>]\<rparr>;
              orgRef = getOrganisationRef orgId s1;
              s2 = (case orgRef of
                      None \<Rightarrow> s1
                    | Some r \<Rightarrow>
                        createNotification now (Some r) phone
                          (''New user '' @ safeName @ '' created an account'') ''NewUser''
                          [(''PoCRef'', RefPoC newDoc)] s1);
              s3 = sendWelcomeTemplate phone safeName orgId s2;
              relationVal =
                (if toLowerCase (trim safeName) = toLowerCase (trim safeName) then ''Self'' else [])
          in (newDoc,
              s3\<lparr>Patients := (Patients s3)(newDoc := Patients s3 newDoc @
                   [\<lparr>pat_Name = safeName, pat_Gender = ''NA'', pat_Age = 0,
                     pat_Relation = relationVal, pat_DOB = Some now, pat_createdAt = now,
                     pat_updatedAt = None\<rparr>])\<rparr>))"

definition saveChatToPoC ::
  "timestamp \<Rightarrow> nat \<Rightarrow> string \<Rightarrow> string \<Rightarrow> string \<Rightarrow> string \<Rightarrow> string option
     \<Rightarrow> string option \<Rightarrow> store \<Rightarrow> store" where
  "saveChatToPoC now pocRef direction from to msgType msgBody extraImage s =
     (let truncated0 = (case msgBody of None \<Rightarrow> [] | Some b \<Rightarrow> b);
          truncated =
            (if length truncated0 > 300 then take 300 truncated0 @ ''...(truncated)''
             else truncated0);
          data = \<lparr>chat_Direction = direction, chat_From = from, chat_To = to,
                  chat_Msg_Type = msgType, chat_Msg_Body = truncated, chat_Timestamp = now,
                  chat_Msg_Image = extraImage\<rparr>;
          s1 = s\<lparr>Chat := (Chat s)(pocRef := Chat s pocRef @ [data])\<rparr>
      in updatePoCLastSeen now pocRef s1)"

subsection \<open>Generated ids\<close>

text \<open>\<open>rand i\<close> is the value of \<^verbatim>\<open>Math.floor(Math.random() * chars.length)\<close> in the \<open>i\<close>-th
  round of the loop; \<^verbatim>\<open>charAt\<close> outside the string is the empty string.\<close>

definition idChars :: string where
  "idChars = ''ABCDEFGHIJKLMNOPQRSTUVWXYZabcdefghijklmnopqrstuvwxyz0123456789''"

definition charAt :: "string \<Rightarrow> nat \<Rightarrow> string" where
  "charAt s i = (if i < length s then [s ! i] else [])"

definition generateId :: "nat \<Rightarrow> (nat \<Rightarrow> nat) \<Rightarrow> string" where
  "generateId len rand = concat (map (\<lambda>i. charAt idChars (rand i)) [0..<len])"

subsection \<open>Check-in\<close>

definition createCheckinDoc ::
  "timestamp \<Rightarrow> (nat \<Rightarrow> nat) \<Rightarrow> nat \<Rightarrow> string \<Rightarrow> string \<Rightarrow> store \<Rightarrow> store" where
  "createCheckinDoc now rand pocRef userPhone orgId s =
     (case getOrganisationRef orgId s of
        None \<Rightarrow> s
      | Some orgRef \<Rightarrow>
          let userName =
                (if pocRef < length (PoC s) then or_else (poc_Name (PoC s ! pocRef)) ''User''
                 else ''User'');
              checkinId = ''CHK-'' @ generateId 8 rand;
              doc = \<lparr>chk_CheckinID = checkinId, chk_PoCRef = pocRef, chk_phone = userPhone,
                     chk_checkinTime = now, chk_OrgID = orgId\<rparr>;
              s1 = s\<lparr>Checkin := (Checkin s)(orgRef := (Checkin s orgRef)(checkinId \<mapsto> doc))\<rparr>
          in createNotification now (Some orgRef) userPhone
               (userName @ '' just checked in at the facility'') ''Checkin''
               [(''PoCRef'', RefPoC pocRef), (''checkinRef'', RefDoc ''Checkin'' checkinId)] s1)"

subsection \<open>Form payloads\<close>

text \<open>The parsed \<^verbatim>\<open>response_json\<close> of a form reply: a map from field names to the
  strings that the forms submit.\<close>

type_synonym flow_data = "string \<rightharpoonup> string"

text \<open>\<^verbatim>\<open>flowData[k] || ""\<close>.\<close>

definition fieldOr :: "flow_data \<Rightarrow> string \<Rightarrow> string" where
  "fieldOr flowData k = (case flowData k of None \<Rightarrow> [] | Some v \<Rightarrow> v)"


text \<open>\<^verbatim>\<open>val.match(/\((\d)\/5\)/)\<close>: the digit of the first occurrence of \<^verbatim>\<open>(d/5)\<close>.\<close>

definition isDigit :: "char \<Rightarrow> bool" where
  "isDigit c = (48 \<le> (of_char c :: nat) \<and> (of_char c :: nat) \<le> 57)"

fun starMatch :: "string \<Rightarrow> string option" where
  "starMatch (a # b # c # d # e # rest) =
     (if a = CHR ''('' \<and> isDigit b \<and> c = CHR ''/'' \<and> d = CHR ''5'' \<and> e = CHR '')''
      then Some [b] else starMatch (b # c # d # e # rest))"
| "starMatch s = None"

definition parseStarRating :: "string option \<Rightarrow> string \<Rightarrow> string" where
  "parseStarRating val fallback =
     (case val of
        None \<Rightarrow> fallback
      | Some v \<Rightarrow>
          if v = [] then fallback
          else (case starMatch v of Some d \<Rightarrow> d | None \<Rightarrow> fallback))"

subsection \<open>Appointment feedback\<close>

definition feedbackFlowToken :: "flow_data \<Rightarrow> string" where
  "feedbackFlowToken flowData = fieldOr flowData ''flow_token''"

definition updateAppointmentFeedback :: "timestamp \<Rightarrow> flow_data \<Rightarrow> string \<Rightarrow> store \<Rightarrow> store" where
  "updateAppointmentFeedback now flowData orgId s =
     (let flowToken = feedbackFlowToken flowData;
          rawRecommend = flowData ''screen_0_Choose_0'';
          rawComments = fieldOr flowData ''screen_0_Leave_a_1'';
          rawStaff = flowData ''screen_1_Staff_Experience_0'';
          rawDoc = flowData ''screen_1_Doctor_consultation_1'';
          rawOverall = flowData ''screen_1_Overall_Experience_2'';
          recommend = parseYesNo rawRecommend ''No'';
          comments = rawComments;
          staffExp = parseStarRating rawStaff ''NA'';
          docConsult = parseStarRating rawDoc ''NA'';
          overallExp = parseStarRating rawOverall ''NA''
      in case getOrganisationRef orgId s of
           None \<Rightarrow> s
         | Some orgRef \<Rightarrow>
             (case first_index (\<lambda>a. apt_FlowToken (snd a) = flowToken) (Appointment s orgRef) of
                None \<Rightarrow> s
              | Some i \<Rightarrow>
                  let aptId = fst (Appointment s orgRef ! i);
                      aptDoc = snd (Appointment s orgRef ! i);
                      pocRef = apt_PoCRef aptDoc;
                      userPhone = or_else (apt_userPhone aptDoc) ''Unknown'';
                      feedback =
                        \<lparr>fb_Recommend = recommend, fb_Comments = comments,
                         fb_Staff_Experience = staffExp, fb_Doctor_consultation = docConsult,
                         fb_Overall_Experience = overallExp, fb_submittedAt = now\<rparr>;
                      s1 = s\<lparr>Appointment := (Appointment s)(orgRef :=
                             (Appointment s orgRef)[i := (aptId, aptDoc\<lparr>apt_feedback := Some feedback\<rparr>)])\<rparr>;
                      overallRating = (if overallExp \<noteq> ''NA'' then overallExp @ ''/5'' else ''N/A'');
                      notificationMessage =
                        ''Feedback received for appointment with ''
                          @ or_else (apt_doctorName aptDoc) ''Unknown''
                          @ ''. Overall rating: '' @ overallRating
                  in createNotification now (Some orgRef) userPhone notificationMessage ''Feedback''
                       [(''PoCRef'', RefPoC pocRef),
                        (''appointmentRef'', RefDoc ''Appointment'' aptId),
                        (''feedbackDetails'',
                           Obj [(''recommend'', Str recommend),
                                (''comments'',
                                   Str (if comments = [] then []
                                        else if length comments > 50 then take 50 comments @ ''...''
                                        else comments)),
                                (''staffExp'', Str staffExp),
                                (''docConsult'', Str docConsult),
                                (''overallExp'', Str overallExp)])] s1))"

subsection \<open>The environment of a request\<close>

text \<open>
  What a request takes from outside the store: the clock, the random source, the calendar
  (\<open>env_parseDate\<close> is \<^verbatim>\<open>new Date(v)\<close> shifted by five and a half hours, \<open>None\<close> for an
  invalid date; \<open>env_age\<close> the age in years today of someone born then), the LLM provider,
  and \<^verbatim>\<open>JSON.parse(reply).reply\<close> as \<open>env_replyField\<close> (\<open>None\<close> when the text does not
  parse or has no truthy \<^verbatim>\<open>reply\<close>). Two functions of the source are parameters here and are
  not unfolded: \<^verbatim>\<open>handleOpenAiFunctionCall\<close>, which runs the intent chosen by the LLM and
  returns its text, and \<^verbatim>\<open>createAppointmentDoc\<close>.
\<close>

record env =
  env_now :: timestamp
  env_rand :: "nat \<Rightarrow> nat"
  env_parseDate :: "string \<Rightarrow> timestamp option"
  env_age :: "timestamp \<Rightarrow> int"
  env_createChatCompletion :: "chat_request \<Rightarrow> completion"
  env_replyField :: "string \<Rightarrow> string option"
  env_handleOpenAiFunctionCall ::
    "string \<Rightarrow> string \<Rightarrow> string \<Rightarrow> nat \<Rightarrow> string \<Rightarrow> string \<Rightarrow> store \<Rightarrow> string \<times> store"
  env_createAppointmentDoc :: "nat \<Rightarrow> string \<Rightarrow> flow_data \<Rightarrow> string \<Rightarrow> store \<Rightarrow> store"

subsection \<open>Registration and support forms\<close>

definition processWelcomeFormSubmission ::
  "env \<Rightarrow> nat \<Rightarrow> flow_data \<Rightarrow> string \<Rightarrow> store \<Rightarrow> store" where
  "processWelcomeFormSubmission e pocRef flowData orgId s =
     (let fullName = fieldOr flowData ''screen_0_Full_Name_0'';
          genderVal = fieldOr flowData ''screen_0_Gender_1'';
          dobValue = fieldOr flowData ''screen_0_DOB_2'';
          address = fieldOr flowData ''screen_0_Address_3'';
          gender =
            (if genderVal \<noteq> [] then
               (let parts = str_split CHR ''_'' genderVal
                in if length parts > 1 then or_else (parts ! 1) ''NA'' else ''NA'')
             else ''NA'');
          dobTs = (if dobValue \<noteq> [] then env_parseDate e dobValue else None);
          age = (case dobTs of None \<Rightarrow> 0 | Some d \<Rightarrow> env_age e d)
      in if \<not> pocRef < length (PoC s) then s
         else
           let s1 = s\<lparr>PoC := (PoC s)[pocRef := (PoC s ! pocRef)
                       \<lparr>poc_Name := fullName, poc_Gender := Some gender, poc_DOB := dobTs,
                        poc_Address := Some address, poc_Age := Some age,
                        poc_registered := Some True, poc_updatedAt := Some (env_now e)\<rparr>]\<rparr>;
               s2 = (case Patients s1 pocRef of
                       [] \<Rightarrow> s1
                     | p # ps \<Rightarrow>
                         s1\<lparr>Patients := (Patients s1)(pocRef :=
                              p\<lparr>pat_Name := fullName, pat_Gender := gender, pat_DOB := dobTs,
                                pat_Age := age, pat_updatedAt := Some (env_now e)\<rparr> # ps)\<rparr>)
           in case getOrganisationRef orgId s2 of
                None \<Rightarrow> s2
              | Some orgRef \<Rightarrow>
                  let userPhone = or_else (poc_Phone (PoC s2 ! pocRef)) ''Unknown''
                  in createNotification (env_now e) (Some orgRef) userPhone
                       (''New user '' @ fullName @ '' completed registration'') ''Registration''
                       [(''PoCRef'', RefPoC pocRef),
                        (''userData'',
                           Obj [(''name'', Str fullName), (''gender'', Str gender),
                                (''age'', Num age), (''address'', Str address)])] s2)"

definition createSupportTicket ::
  "env \<Rightarrow> nat \<Rightarrow> flow_data \<Rightarrow> string \<Rightarrow> store \<Rightarrow> store" where
  "createSupportTicket e pocRef flowData orgId s =
     (case getOrganisationRef orgId s of
        None \<Rightarrow> s
      | Some orgRef \<Rightarrow>
          let description = flowData ''screen_0_Description_of_issue_2'';
              urgencyVal = flowData ''screen_0_Urgency_1'';
              categoryVal = flowData ''screen_0_Category_0'';
              urgency = parseNumberFromLabel urgencyVal ''Low'';
              category = parseNumberFromLabel categoryVal ''General'';
              ticketId = ''TIC-'' @ generateId 8 (env_rand e);
              doc = \<lparr>tic_TicketID = ticketId, tic_PoCRef = pocRef, tic_description = description,
                     tic_urgency = urgency, tic_category = category, tic_status = ''open'',
                     tic_createdAt = env_now e, tic_OrgID = orgId\<rparr>;
              s1 = s\<lparr>Ticket := (Ticket s)(orgRef := (Ticket s orgRef)(ticketId \<mapsto> doc))\<rparr>;
              userPhone =
                (if pocRef < length (PoC s1) then or_else (poc_Phone (PoC s1 ! pocRef)) ''Unknown''
                 else ''Unknown'');
              userName =
                (if pocRef < length (PoC s1) then or_else (poc_Name (PoC s1 ! pocRef)) ''User''
                 else ''User'');
              notificationMessage =
                ''New support ticket created by '' @ userName @ '' with '' @ urgency
                  @ '' urgency in the '' @ category @ '' category''
          in createNotification (env_now e) (Some orgRef) userPhone notificationMessage ''Ticket''
               [(''PoCRef'', RefPoC pocRef),
                (''ticketRef'', RefDoc ''Ticket'' ticketId),
                (''ticketDetails'',
                   Obj [(''urgency'', Str urgency), (''category'', Str category),
                        (''description'',
                           Str (case description of
                                  None \<Rightarrow> []
                                | Some d \<Rightarrow>
                                    if d = [] then []
                                    else if length d > 50 then take 50 d @ ''...'' else d))])] s1)"

section \<open>The webhook\<close>

subsection \<open>Interactive form replies\<close>

text \<open>The chain \<^verbatim>\<open>if / else if / else if / else\<close> over the marker fields, in its order.\<close>

datatype form_flow = Registration | Feedback | Support | AppointmentForm



subsection \<open>Text messages\<close>

definition getSystemMessage :: "org_config \<Rightarrow> turn" where
  "getSystemMessage orgConfig =
     \<lparr>turn_role = ''system'',
      turn_content = Some (
        ''\<newline>You are '' @ cfg_orgName orgConfig @ '''s Chatbot in English. \<newline>'' @
        ''We've replaced the old knowledge lookup with substring search + \<newline>'' @
        ''a fallback GPT pass over the entire knowledge base if no substring found. \<newline>'' @
        ''We also use GPT for symptom classification. \<newline>'' @
        ''No other flows changed. \<newline>'' @
        ''Respond in a natural, friendly, and helpful manner representing ''
          @ cfg_orgName orgConfig @ ''.\<newline>'')\<rparr>"

text \<open>The names of the five functions that \<^verbatim>\<open>getOpenAiTools\<close> offers.\<close>

definition openAiToolNames :: "string list" where
  "openAiToolNames =
     [''appointment_flow'', ''support_flow'', ''knowledge_lookup'', ''small_talk'',
      ''symptom_assessment'']"

text \<open>The notification for an ordinary message of more than ten characters.\<close>

definition notifyNewMessage :: "timestamp \<Rightarrow> string \<Rightarrow> string \<Rightarrow> nat \<Rightarrow> string \<Rightarrow> store \<Rightarrow> store" where
  "notifyNewMessage now orgId from pocRef userText s =
     (if \<not> startsWith userText ''Checkin:'' \<and> length userText > 10 then
        (case getOrganisationRef orgId s of
           None \<Rightarrow> s
         | Some orgRef \<Rightarrow>
             let userName =
                   (if pocRef < length (PoC s) then or_else (poc_Name (PoC s ! pocRef)) ''User''
                    else ''User'');
                 notificationMessage =
                   ''New message from '' @ userName @ '': \"''
                     @ (if length userText > 30 then take 30 userText @ ''...'' else userText)
                     @ ''\"''
             in createNotification now (Some orgRef) from notificationMessage ''Message''
                  [(''PoCRef'', RefPoC pocRef), (''messageContent'', Str userText)] s)
      else s)"





text \<open>\<^verbatim>\<open>pocRef.set({ chatState: { messages } }, { merge: true })\<close>. The reference comes
  from \<open>getOrCreatePoCByPhone\<close>, so the document exists.\<close>

definition setChatState :: "nat \<Rightarrow> turn list \<Rightarrow> store \<Rightarrow> store" where
  "setChatState pocRef messages s =
     (if pocRef < length (PoC s)
      then s\<lparr>PoC := (PoC s)[pocRef := (PoC s ! pocRef)\<lparr>poc_chatState := Some messages\<rparr>]\<rparr>
      else s)"

text \<open>From the assistant's reply to the end of the handler.\<close>

definition sendBotReply ::
  "env \<Rightarrow> string \<Rightarrow> org_config \<Rightarrow> string \<Rightarrow> nat \<Rightarrow> turn list \<Rightarrow> string option \<Rightarrow> store
     \<Rightarrow> nat \<times> store" where
  "sendBotReply e orgId orgConfig from pocRef messages reply s =
     (let messages' = messages @ [\<lparr>turn_role = ''assistant'', turn_content = reply\<rparr>];
          s1 = setChatState pocRef messages' s;
          finalReply =
            (case reply of
               None \<Rightarrow> None
             | Some r \<Rightarrow> (case env_replyField e r of Some x \<Rightarrow> Some x | None \<Rightarrow> Some r));
          s2 = sendWhatsAppMessage from finalReply orgId s1;
          s3 = saveChatToPoC (env_now e) pocRef ''outbound'' (cfg_whatsappPhoneId orgConfig)
                 from ''text'' finalReply None s2
      in (200, s3))"

text \<open>The \<^verbatim>\<open>BotMode\<close> test and the function-calling round. A rejected LLM call is caught
  by the handler's \<^verbatim>\<open>catch\<close>, which answers 500.\<close>

definition botReply ::
  "env \<Rightarrow> string \<Rightarrow> org_config \<Rightarrow> string \<Rightarrow> nat \<Rightarrow> string \<Rightarrow> store \<Rightarrow> nat \<times> store" where
  "botReply e orgId orgConfig from pocRef userText s =
     (let pocData = (if pocRef < length (PoC s) then Some (PoC s ! pocRef) else None);
          botMode = (case pocData of None \<Rightarrow> True | Some d \<Rightarrow> poc_BotMode d \<noteq> Some False)
      in if \<not> botMode then (200, s)
         else
           let messages0 =
                 (case pocData of
                    None \<Rightarrow> []
                  | Some d \<Rightarrow> (case poc_chatState d of None \<Rightarrow> [] | Some ms \<Rightarrow> ms));
               messages1 =
                 (if \<not> list_ex (\<lambda>m. turn_role m = ''system'') messages0
                  then getSystemMessage orgConfig # messages0 else messages0);
               messages = messages1 @ [\<lparr>turn_role = ''user'', turn_content = Some userText\<rparr>];
               request = \<lparr>req_model = ''gpt-4o-mini'', req_messages = messages,
                           req_temperature = None, req_functions = openAiToolNames\<rparr>;
               s1 = s\<lparr>openaiRequests := openaiRequests s @ [request]\<rparr>
           in case env_createChatCompletion e request of
                ApiError \<Rightarrow> (500, s1)
              | NoChoice \<Rightarrow> (200, s1)
              | FunctionCall name arguments \<Rightarrow>
                  (case env_handleOpenAiFunctionCall e name arguments from pocRef userText orgId s1 of
                     (reply, s2) \<Rightarrow> sendBotReply e orgId orgConfig from pocRef messages (Some reply) s2)
              | Message content \<Rightarrow> sendBotReply e orgId orgConfig from pocRef messages content s1)"


subsection \<open>POST /webhook\<close>



section \<open>Operations on the store\<close>



text \<open>The store with no document, nothing cached and nothing sent.\<close>

definition emptyStore :: store where
  "emptyStore =
     \<lparr>PoC = [], Chat = (\<lambda>r. []), Patients = (\<lambda>r. []), Organisation = [],
      Appointment = (\<lambda>r. []), Ticket = (\<lambda>r. Map.empty), Checkin = (\<lambda>r. Map.empty),
      Notifications = (\<lambda>r. []), organizationConfigs = Map.empty, sent = [],
      openaiRequests = []\<rparr>"

text \<open>The document that \<open>getOrCreatePoCByPhone\<close> adds for a new contact.\<close>

definition newPoC :: "timestamp \<Rightarrow> string \<Rightarrow> string \<Rightarrow> string \<Rightarrow> poc" where
  "newPoC now phone contactName orgId =
     \<lparr>poc_Name = contactName, poc_Phone = phone, poc_BotMode = Some True,
      poc_addedBy = Some orgId, poc_Created_Timestamp = Some now,
      poc_lastSeen = Some now, poc_registered = Some False,
      poc_chatState = None, poc_Gender = None, poc_DOB = None,
      poc_Address = None, poc_Age = None, poc_updatedAt = None\<rparr>"

text \<open>A store for examples: the tenants "Acme" and "Other", each active and with
  messaging credentials, and no other document.\<close>

definition acmeOrg :: org_doc where
  "acmeOrg =
     \<lparr>org_OrgID = ''Acme'', org_Name = ''Acme Clinic'', org_OrgName = [],
      org_WA_Token = ''token-a'', org_WA_Phone_ID = ''15550001'', org_FB_Number = [],
      org_WA_Verify_Token = [], org_BillingActive = True, org_BillingPlan = [],
      org_Knowledge_URL = [], org_OrgLogo = []\<rparr>"

definition otherOrg :: org_doc where
  "otherOrg =
     \<lparr>org_OrgID = ''Other'', org_Name = ''Other Hospital'', org_OrgName = [],
      org_WA_Token = ''token-o'', org_WA_Phone_ID = ''15550002'', org_FB_Number = [],
      org_WA_Verify_Token = [], org_BillingActive = True, org_BillingPlan = [],
      org_Knowledge_URL = [], org_OrgLogo = []\<rparr>"

definition acmeStore :: store where
  "acmeStore = emptyStore\<lparr>Organisation := [acmeOrg, otherOrg]\<rparr>"








definition mutedStore :: store where
  "mutedStore =
     snd (loadOrganizationConfig ''Acme''
       (acmeStore\<lparr>PoC := [(newPoC 10 ''911'' ''Asha'' ''Acme'')\<lparr>poc_BotMode := Some False\<rparr>]\<rparr>))"

section \<open>Proofs: strings\<close>

lemma startsWith_prefix: "startsWith s p \<longleftrightarrow> prefix p s"
  by (induction s p rule: startsWith.induct) auto

lemma str_includes_sublist: "str_includes s t \<longleftrightarrow> sublist t s"
proof (induction s)
  case Nil
  show ?case by (cases t) simp_all
next
  case (Cons x s)
  show ?case
    by (simp only: str_includes.simps startsWith_prefix Cons sublist_Cons_right)
qed

section \<open>Proofs: the edit distance\<close>

lemma edit_table_col0 [simp]: "edit_table a b i 0 = i"
  by (cases i) simp_all

lemma edit_table_down: "edit_table a b (Suc i) j \<le> edit_table a b i j + 1"
  by (cases j) simp_all

lemma edit_table_right: "edit_table a b i (Suc j) \<le> edit_table a b i j + 1"
  by (cases i) simp_all

text \<open>Neighbouring entries differ by at most one, also against the direction of the
  recurrence.\<close>

lemma edit_table_left: "edit_table a b i j \<le> edit_table a b i (Suc j) + 1"
proof (induction i arbitrary: j)
  case 0
  show ?case by simp
next
  case (Suc i)
  have "edit_table a b (Suc i) j \<le> edit_table a b i j + 1"
    by (rule edit_table_down)
  moreover have "edit_table a b i j \<le> edit_table a b i (Suc j) + 1"
    by (rule Suc.IH)
  ultimately show ?case by simp
qed

lemma edit_table_up: "edit_table a b i j \<le> edit_table a b (Suc i) j + 1"
proof (induction j arbitrary: i)
  case 0
  show ?case by simp
next
  case (Suc j)
  have "edit_table a b i (Suc j) \<le> edit_table a b i j + 1"
    by (rule edit_table_right)
  moreover have "edit_table a b i j \<le> edit_table a b (Suc i) j + 1"
    by (rule Suc.IH)
  ultimately show ?case by simp
qed

text \<open>Hence the shortcut of the source, which takes the diagonal entry alone where the
  characters agree, computes the same entry as the three-way minimum.\<close>

lemma edit_table_step:
  "edit_table a b (Suc i) (Suc j) =
     (if a ! i = b ! j then edit_table a b i j
      else min (edit_table a b i (Suc j) + 1)
             (min (edit_table a b (Suc i) j + 1) (edit_table a b i j + 1)))"
  using edit_table_left [of a b i j] edit_table_up [of a b i j] by simp

lemma init_rows: "fold (\<lambda>i matrix. set_at matrix i [i]) [0..<n] [] = map (\<lambda>i. [i]) [0..<n]"
  by (induction n) (simp_all add: set_at_def)

lemma init_row0:
  assumes "M \<noteq> []" "M ! 0 = [0]"
  shows "fold (\<lambda>j matrix. matrix[0 := set_at (matrix ! 0) j j]) [0..<Suc n] M = M[0 := [0..<Suc n]]"
proof (induction n)
  case 0
  from assms show ?case by (simp add: set_at_def list_update_same_conv)
next
  case (Suc n)
  have "[0..<Suc (Suc n)] = [0..<Suc n] @ [Suc n]" by simp
  then show ?case using assms Suc by (simp add: set_at_def del: upt_Suc)
qed

lemma inner_loop:
  assumes i: "i < length M" and row: "M ! i = [Suc i']" "i = Suc i'"
    and prev: "M ! i' = table_row a b i' (Suc ib)" and n: "n \<le> ib"
  shows "fold (\<lambda>j matrix. matrix[i := set_at (matrix ! i) j (cell a b matrix i j)]) [1..<Suc n] M
           = M[i := table_row a b i (Suc n)]"
  using n
proof (induction n)
  case 0
  have "M[i := M ! i] = M" by simp
  with row show ?case by (simp add: table_row_def)
next
  case (Suc n)
  let ?M = "M[i := table_row a b i (Suc n)]"
  have len: "length (table_row a b i (Suc n)) = Suc n" by (simp add: table_row_def)
  have up: "?M ! i' = table_row a b i' (Suc ib)" using prev row(2) by simp
  have c: "cell a b ?M i (Suc n) = edit_table a b i (Suc n)"
    using Suc.prems i row(2) up
    by (simp add: cell_def edit_table_step table_row_def nth_append del: edit_table.simps upt_Suc)
  have "[1..<Suc (Suc n)] = [1..<Suc n] @ [Suc n]" by simp
  then have "fold (\<lambda>j matrix. matrix[i := set_at (matrix ! i) j (cell a b matrix i j)]) [1..<Suc (Suc n)] M
      = ?M[i := set_at (?M ! i) (Suc n) (cell a b ?M i (Suc n))]"
    using Suc by (simp del: upt_Suc)
  also have "\<dots> = M[i := table_row a b i (Suc (Suc n))]"
    using i c len by (simp add: set_at_def table_row_def)
  finally show ?case .
qed

lemma outer_loop:
  assumes k: "k \<le> ia"
  shows "fold (\<lambda>i matrix.
            fold (\<lambda>j matrix. matrix[i := set_at (matrix ! i) j (cell a b matrix i j)])
              [1..<Suc ib] matrix)
          [1..<Suc k] (map (\<lambda>i. if i = 0 then table_row a b 0 (Suc ib) else [i]) [0..<Suc ia])
         = map (\<lambda>i. if i \<le> k then table_row a b i (Suc ib) else [i]) [0..<Suc ia]"
  using k
proof (induction k)
  case 0
  show ?case by simp
next
  case (Suc k)
  let ?M = "map (\<lambda>i. if i \<le> k then table_row a b i (Suc ib) else [i]) [0..<Suc ia]"
  have [simp]: "length ?M = Suc ia" by simp
  have nth: "\<And>i. i \<le> ia \<Longrightarrow> ?M ! i = (if i \<le> k then table_row a b i (Suc ib) else [i])"
  proof -
    fix i assume "i \<le> ia"
    then have "i < length [0..<Suc ia]" by simp
    then have "?M ! i = (\<lambda>i. if i \<le> k then table_row a b i (Suc ib) else [i]) ([0..<Suc ia] ! i)"
      by (rule nth_map)
    also have "[0..<Suc ia] ! i = i" using \<open>i \<le> ia\<close> by (metis add_0 less_Suc_eq_le nth_upt)
    finally show "?M ! i = (if i \<le> k then table_row a b i (Suc ib) else [i])" .
  qed
  have inner: "fold (\<lambda>j matrix. matrix[Suc k := set_at (matrix ! Suc k) j (cell a b matrix (Suc k) j)])
                [1..<Suc ib] ?M = ?M[Suc k := table_row a b (Suc k) (Suc ib)]"
  proof (rule inner_loop)
    show "Suc k < length ?M" using Suc.prems by simp
    show "?M ! Suc k = [Suc k]" using Suc.prems nth [of "Suc k"] by simp
    show "Suc k = Suc k" ..
    show "?M ! k = table_row a b k (Suc ib)" using Suc.prems nth [of k] by simp
    show "ib \<le> ib" ..
  qed
  have upd: "?M[Suc k := table_row a b (Suc k) (Suc ib)]
        = map (\<lambda>i. if i \<le> Suc k then table_row a b i (Suc ib) else [i]) [0..<Suc ia]"
  proof (rule nth_equalityI)
    show "length (?M[Suc k := table_row a b (Suc k) (Suc ib)])
        = length (map (\<lambda>i. if i \<le> Suc k then table_row a b i (Suc ib) else [i]) [0..<Suc ia])"
      by simp
  next
    fix i assume "i < length (?M[Suc k := table_row a b (Suc k) (Suc ib)])"
    then have i: "i \<le> ia" by simp
    then have "[0..<Suc ia] ! i = i" by (metis add_0 less_Suc_eq_le nth_upt)
    with i show "?M[Suc k := table_row a b (Suc k) (Suc ib)] ! i
        = map (\<lambda>i. if i \<le> Suc k then table_row a b i (Suc ib) else [i]) [0..<Suc ia] ! i"
      using nth [of i] by (cases "i = Suc k") (simp_all add: nth_list_update del: upt_Suc)
  qed
  have "[1..<Suc (Suc k)] = [1..<Suc k] @ [Suc k]" by simp
  then show ?case using Suc inner upd by (simp del: upt_Suc)
qed

lemma levenshteinDistance_table:
  "levenshteinDistance a b = edit_table a b (length a) (length b)"
proof (cases "a = [] \<or> b = []")
  case True
  then show ?thesis by (auto simp: levenshteinDistance_def)
next
  case False
  let ?ia = "length a" and ?ib = "length b"
  let ?M0 = "map (\<lambda>i. [i]) [0..<Suc ?ia]"
  have row0: "table_row a b 0 (Suc ?ib) = [0..<Suc ?ib]"
    unfolding table_row_def by (rule nth_equalityI) (simp_all del: upt_Suc)
  have m0: "fold (\<lambda>i matrix. set_at matrix i [i]) [0..<Suc ?ia] [] = ?M0"
    by (rule init_rows)
  have "?M0 \<noteq> []" "?M0 ! 0 = [0]" by (simp_all add: upt_rec [of 0])
  then have m1: "fold (\<lambda>j matrix. matrix[0 := set_at (matrix ! 0) j j]) [0..<Suc ?ib] ?M0
      = ?M0[0 := [0..<Suc ?ib]]"
    by (rule init_row0)
  have m1': "?M0[0 := [0..<Suc ?ib]]
      = map (\<lambda>i. if i = 0 then table_row a b 0 (Suc ?ib) else [i]) [0..<Suc ?ia]"
    unfolding row0 by (rule nth_equalityI) (auto simp add: nth_list_update simp del: upt_Suc)
  have m2: "fold (\<lambda>i matrix.
            fold (\<lambda>j matrix. matrix[i := set_at (matrix ! i) j (cell a b matrix i j)])
              [1..<Suc ?ib] matrix)
          [1..<Suc ?ia] (map (\<lambda>i. if i = 0 then table_row a b 0 (Suc ?ib) else [i]) [0..<Suc ?ia])
         = map (\<lambda>i. if i \<le> ?ia then table_row a b i (Suc ?ib) else [i]) [0..<Suc ?ia]"
    by (rule outer_loop) simp
  have "levenshteinDistance a b
      = map (\<lambda>i. if i \<le> ?ia then table_row a b i (Suc ?ib) else [i]) [0..<Suc ?ia] ! ?ia ! ?ib"
    using False unfolding levenshteinDistance_def Let_def m0 m1 m1' m2 by simp
  also have "\<dots> = table_row a b ?ia (Suc ?ib) ! ?ib"
    by (simp del: upt_Suc add: nth_append)
  also have "\<dots> = edit_table a b ?ia ?ib"
    by (simp add: table_row_def del: upt_Suc add: nth_append)
  finally show ?thesis .
qed

subsection \<open>Evaluating the table row by row\<close>

lemma first_row_upt: "first_row n ys = [n..<Suc (n + length ys)]"
proof (induction ys arbitrary: n)
  case Nil
  show ?case by simp
next
  case (Cons y ys)
  have "[n..<Suc (n + length (y # ys))] = n # [Suc n..<Suc (n + length (y # ys))]"
    by (rule upt_conv_Cons) simp
  then show ?case using Cons [of "n + 1"] by (simp del: upt_Suc)
qed

lemma row_cells_table:
  assumes "j \<le> length b"
  shows "row_cells (a ! i) (drop j b) (edit_table a b i j) (edit_table a b (Suc i) j)
           (map (edit_table a b i) [Suc j..<Suc (length b)])
         = map (edit_table a b (Suc i)) [Suc j..<Suc (length b)]"
  using assms
proof (induction "length b - j" arbitrary: j)
  case 0
  then show ?case by simp
next
  case (Suc d)
  then have j: "j < length b" by simp
  have dr: "drop j b = b ! j # drop (Suc j) b"
    using j by (simp add: Cons_nth_drop_Suc)
  have up: "[Suc j..<Suc (length b)] = Suc j # [Suc (Suc j)..<Suc (length b)]"
    using j by (simp add: upt_rec [of "Suc j"])
  have ih: "row_cells (a ! i) (drop (Suc j) b) (edit_table a b i (Suc j)) (edit_table a b (Suc i) (Suc j))
           (map (edit_table a b i) [Suc (Suc j)..<Suc (length b)])
         = map (edit_table a b (Suc i)) [Suc (Suc j)..<Suc (length b)]"
    using Suc.hyps(1) [of "Suc j"] Suc.hyps(2) j by simp
  show ?case unfolding dr up using ih by (simp add: Let_def del: upt_Suc)
qed

lemma table_rows_table:
  assumes "k \<le> length a"
  shows "table_rows (drop k a) b k (table_row a b k (Suc (length b)))
           = table_row a b (length a) (Suc (length b))"
  using assms
proof (induction "length a - k" arbitrary: k)
  case 0
  then show ?case by simp
next
  case (Suc d)
  then have k: "k < length a" by simp
  have dr: "drop k a = a ! k # drop (Suc k) a"
    using k by (simp add: Cons_nth_drop_Suc)
  have row: "\<And>i. table_row a b i (Suc (length b)) = i # map (edit_table a b i) [Suc 0..<Suc (length b)]"
    unfolding table_row_def by (simp add: upt_rec [of 0] del: upt_Suc)
  have next_row: "(k + 1) # row_cells (a ! k) b k (k + 1) (map (edit_table a b k) [Suc 0..<Suc (length b)])
      = table_row a b (Suc k) (Suc (length b))"
    using row_cells_table [of 0 b a k] by (simp add: row del: upt_Suc)
  have "table_rows (drop (Suc k) a) b (Suc k) (table_row a b (Suc k) (Suc (length b)))
      = table_row a b (length a) (Suc (length b))"
    using Suc.hyps(1) [of "Suc k"] Suc.hyps(2) k by simp
  then show ?case unfolding dr using next_row by (simp add: row [of k] del: upt_Suc)
qed

lemma edit_table_rows:
  "edit_table a b (length a) (length b) = last (table_rows a b 0 (first_row 0 b))"
proof -
  have "first_row 0 b = table_row a b 0 (Suc (length b))"
    unfolding first_row_upt table_row_def by (rule nth_equalityI) (simp_all del: upt_Suc)
  then have "table_rows a b 0 (first_row 0 b) = table_row a b (length a) (Suc (length b))"
    using table_rows_table [of 0 a b] by simp
  then show ?thesis by (simp add: table_row_def)
qed

lemma levenshteinDistance_rows [code]:
  "levenshteinDistance a b = last (table_rows a b 0 (first_row 0 b))"
  by (simp only: levenshteinDistance_table edit_table_rows)

subsection \<open>Matching doctors\<close>

lemma specialtyMatches_iff:
  "specialtyMatches (normalise specialty) spec \<longleftrightarrow>
     edit_table (normalise spec) (normalise specialty)
       (length (normalise spec)) (length (normalise specialty)) \<le> 3
     \<or> sublist (normalise specialty) (normalise spec)
     \<or> sublist (normalise spec) (normalise specialty)"
  by (simp add: specialtyMatches_def Let_def levenshteinDistance_table str_includes_sublist)

lemma findDoctorsByFuzzySpecialty_iff:
  "d \<in> set (findDoctorsByFuzzySpecialty doctors specialty orgId) \<longleftrightarrow>
     d \<in> set doctors \<and> doc_OrgID d = orgId \<and>
     (\<exists>spec \<in> set (doc_Specialization d). specialtyMatches (normalise specialty) spec)"
  by (auto simp add: findDoctorsByFuzzySpecialty_def Let_def list_ex_iff filter_empty_conv)

text \<open>
  Claim C3. \<open>levenshteinDistance\<close> computes the entry \<open>(length a, length b)\<close> of the
  textbook edit-distance table (unit costs, \<open>D i 0 = i\<close>, \<open>D 0 j = j\<close>). The distance from
  "Cardiologist" to itself is 0; to "Cardiologyst" it is at most 3, so a doctor with that
  specialty is found for "Cardiologist"; from "Dermatologist" to "Neurologist" it is more
  than 3 and neither contains the other, so that doctor is not found for "Neurologist".
  In general a doctor of the tenant is returned exactly when one of the doctor's
  specialties, normalised (lower case, trimmed, one surrounding quote character
  stripped at each end), is within distance 3 of the normalised classified specialty, or
  one of the two normalised strings contains the other.
\<close>

theorem fuzzy_specialty_matching:
  "levenshteinDistance a b = edit_table a b (length a) (length b)
   \<and> levenshteinDistance ''Cardiologist'' ''Cardiologist'' = 0
   \<and> levenshteinDistance ''Cardiologist'' ''Cardiologyst'' \<le> 3
   \<and> findDoctorsByFuzzySpecialty
         [\<lparr>doc_Name = ''A'', doc_Specialization = [''Cardiologyst''], doc_OrgID = ''Acme''\<rparr>]
         ''Cardiologist'' ''Acme''
       = [\<lparr>doc_Name = ''A'', doc_Specialization = [''Cardiologyst''], doc_OrgID = ''Acme''\<rparr>]
   \<and> levenshteinDistance ''Dermatologist'' ''Neurologist'' > 3
   \<and> \<not> sublist ''Dermatologist'' ''Neurologist''
   \<and> \<not> sublist ''Neurologist'' ''Dermatologist''
   \<and> findDoctorsByFuzzySpecialty
         [\<lparr>doc_Name = ''B'', doc_Specialization = [''Dermatologist''], doc_OrgID = ''Acme''\<rparr>]
         ''Neurologist'' ''Acme'' = []
   \<and> (d \<in> set (findDoctorsByFuzzySpecialty doctors specialty orgId) \<longleftrightarrow>
        d \<in> set doctors \<and> doc_OrgID d = orgId \<and>
        (\<exists>spec \<in> set (doc_Specialization d).
           edit_table (normalise spec) (normalise specialty)
             (length (normalise spec)) (length (normalise specialty)) \<le> 3
           \<or> sublist (normalise specialty) (normalise spec)
           \<or> sublist (normalise spec) (normalise specialty)))"
proof -
  have t: "levenshteinDistance a b = edit_table a b (length a) (length b)"
    by (rule levenshteinDistance_table)
  have e1: "levenshteinDistance ''Cardiologist'' ''Cardiologist'' = 0"
    by code_simp
  have e2: "levenshteinDistance ''Cardiologist'' ''Cardiologyst'' \<le> 3"
    by code_simp
  have e3: "findDoctorsByFuzzySpecialty
         [\<lparr>doc_Name = ''A'', doc_Specialization = [''Cardiologyst''], doc_OrgID = ''Acme''\<rparr>]
         ''Cardiologist'' ''Acme''
       = [\<lparr>doc_Name = ''A'', doc_Specialization = [''Cardiologyst''], doc_OrgID = ''Acme''\<rparr>]"
    by code_simp
  have e4: "levenshteinDistance ''Dermatologist'' ''Neurologist'' > 3"
    by code_simp
  have "\<not> str_includes ''Neurologist'' ''Dermatologist''"
    and "\<not> str_includes ''Dermatologist'' ''Neurologist''"
    by code_simp+
  then have e5: "\<not> sublist ''Dermatologist'' ''Neurologist''"
    and e6: "\<not> sublist ''Neurologist'' ''Dermatologist''"
    by (simp_all only: str_includes_sublist not_False_eq_True)
  have e7: "findDoctorsByFuzzySpecialty
         [\<lparr>doc_Name = ''B'', doc_Specialization = [''Dermatologist''], doc_OrgID = ''Acme''\<rparr>]
         ''Neurologist'' ''Acme'' = []"
    by code_simp
  have m: "d \<in> set (findDoctorsByFuzzySpecialty doctors specialty orgId) \<longleftrightarrow>
        d \<in> set doctors \<and> doc_OrgID d = orgId \<and>
        (\<exists>spec \<in> set (doc_Specialization d).
           edit_table (normalise spec) (normalise specialty)
             (length (normalise spec)) (length (normalise specialty)) \<le> 3
           \<or> sublist (normalise specialty) (normalise spec)
           \<or> sublist (normalise spec) (normalise specialty))"
    by (simp only: findDoctorsByFuzzySpecialty_iff specialtyMatches_iff)
  from t e1 e2 e3 e4 e5 e6 e7 m show ?thesis by (intro conjI)
qed

theorem fuzzy_specialty_matching_witness:
  "levenshteinDistance ''ab'' ''b'' = edit_table ''ab'' ''b'' (length ''ab'') (length ''b'')
   \<and> levenshteinDistance ''ab'' ''b'' = 1
   \<and> normalise ''\"Cardio '' = ''cardio''
   \<and> \<lparr>doc_Name = ''A'', doc_Specialization = [''\"Cardio ''], doc_OrgID = ''Acme''\<rparr>
       \<in> set (findDoctorsByFuzzySpecialty
           [\<lparr>doc_Name = ''A'', doc_Specialization = [''\"Cardio ''], doc_OrgID = ''Acme''\<rparr>]
           ''cardiologist'' ''Acme'')"
proof -
  let ?d = "\<lparr>doc_Name = ''A'', doc_Specialization = [''\"Cardio ''], doc_OrgID = ''Acme''\<rparr>"
  note T = fuzzy_specialty_matching [of "''ab''" "''b''" ?d "[?d]" "''cardiologist''" "''Acme''"]
  have n1: "normalise ''\"Cardio '' = ''cardio''" by code_simp
  have n2: "normalise ''cardiologist'' = ''cardiologist''" by code_simp
  have "str_includes ''cardiologist'' ''cardio''" by code_simp
  then have sub: "sublist (normalise ''\"Cardio '') (normalise ''cardiologist'')"
    by (simp only: str_includes_sublist n1 n2)
  have ev: "levenshteinDistance ''ab'' ''b'' = 1" by code_simp
  from T have a: "levenshteinDistance ''ab'' ''b'' = edit_table ''ab'' ''b'' (length ''ab'') (length ''b'')"
    by (rule conjunct1)
  from T have m: "?d \<in> set (findDoctorsByFuzzySpecialty [?d] ''cardiologist'' ''Acme'') \<longleftrightarrow>
        ?d \<in> set [?d] \<and> doc_OrgID ?d = ''Acme'' \<and>
        (\<exists>spec \<in> set (doc_Specialization ?d).
           edit_table (normalise spec) (normalise ''cardiologist'')
             (length (normalise spec)) (length (normalise ''cardiologist'')) \<le> 3
           \<or> sublist (normalise ''cardiologist'') (normalise spec)
           \<or> sublist (normalise spec) (normalise ''cardiologist''))"
    by (elim conjE)
  have mem: "''\"Cardio '' \<in> set (doc_Specialization ?d)" by simp
  have ex: "\<exists>spec \<in> set (doc_Specialization ?d).
           edit_table (normalise spec) (normalise ''cardiologist'')
             (length (normalise spec)) (length (normalise ''cardiologist'')) \<le> 3
           \<or> sublist (normalise ''cardiologist'') (normalise spec)
           \<or> sublist (normalise spec) (normalise ''cardiologist'')"
    using mem sub by (intro bexI [of _ "''\"Cardio ''"] disjI2)
  have d1: "?d \<in> set [?d]" by simp
  have d2: "doc_OrgID ?d = ''Acme''" by simp
  have "?d \<in> set (findDoctorsByFuzzySpecialty [?d] ''cardiologist'' ''Acme'')"
    unfolding m using d1 d2 ex by (intro conjI)
  with a ev n1 show ?thesis by (intro conjI)
qed

section \<open>Proofs: label decoding\<close>

lemma str_split_not_Nil [simp]: "str_split c s \<noteq> []"
  by (induction s) (auto split: list.splits)

lemma str_split_hd: "hd (str_split c s) = takeWhile (\<lambda>x. x \<noteq> c) s"
proof (induction s)
  case Nil
  show ?case by simp
next
  case (Cons x s)
  then show ?case by (cases "str_split c s") auto
qed

lemma str_split_no_sep: "c \<notin> set s \<Longrightarrow> str_split c s = [s]"
  by (induction s) auto

lemma str_split_append:
  "c \<notin> set p \<Longrightarrow> str_split c (p @ c # s) = p # str_split c s"
  by (induction p) auto

lemma second_piece:
  assumes "CHR ''_'' \<notin> set idx"
  shows "str_split CHR ''_'' (idx @ ''_'' @ v) ! 1 = takeWhile (\<lambda>x. x \<noteq> CHR ''_'') v"
    and "length (str_split CHR ''_'' (idx @ ''_'' @ v)) > 1"
proof -
  have s: "str_split CHR ''_'' (idx @ ''_'' @ v) = idx # str_split CHR ''_'' v"
    using str_split_append [OF assms, of v] by simp
  obtain p ps where ps: "str_split CHR ''_'' v = p # ps"
    by (cases "str_split CHR ''_'' v") simp_all
  with str_split_hd [of "CHR ''_''" v] have "p = takeWhile (\<lambda>x. x \<noteq> CHR ''_'') v" by simp
  with s ps show "str_split CHR ''_'' (idx @ ''_'' @ v) ! 1 = takeWhile (\<lambda>x. x \<noteq> CHR ''_'') v"
    by simp
  from s ps show "length (str_split CHR ''_'' (idx @ ''_'' @ v)) > 1" by simp
qed

text \<open>
  Claim C9, as amended. For a label \<open>idx_v\<close> whose index holds no underscore, both decoders
  return the piece of \<open>v\<close> before its first underscore: the token between the first and
  the second underscore of the label. That is all of \<open>v\<close> exactly when \<open>v\<close> holds no
  underscore. A non-empty value without any underscore is returned unchanged, and a
  missing or empty value gives the fallback.
\<close>

theorem label_decoding:
  "(CHR ''_'' \<notin> set idx \<longrightarrow>
      parseNumberFromLabel (Some (idx @ ''_'' @ v)) fallback = takeWhile (\<lambda>x. x \<noteq> CHR ''_'') v
    \<and> parseYesNo (Some (idx @ ''_'' @ v)) fallback = takeWhile (\<lambda>x. x \<noteq> CHR ''_'') v)
   \<and> (CHR ''_'' \<notin> set idx \<and> CHR ''_'' \<notin> set v \<longrightarrow>
      parseNumberFromLabel (Some (idx @ ''_'' @ v)) fallback = v
    \<and> parseYesNo (Some (idx @ ''_'' @ v)) fallback = v)
   \<and> (CHR ''_'' \<notin> set w \<and> w \<noteq> [] \<longrightarrow>
      parseNumberFromLabel (Some w) fallback = w \<and> parseYesNo (Some w) fallback = w)
   \<and> parseNumberFromLabel None fallback = fallback \<and> parseYesNo None fallback = fallback
   \<and> parseNumberFromLabel (Some []) fallback = fallback \<and> parseYesNo (Some []) fallback = fallback"
proof -
  have a: "parseNumberFromLabel (Some (idx @ ''_'' @ v)) fallback = takeWhile (\<lambda>x. x \<noteq> CHR ''_'') v
      \<and> parseYesNo (Some (idx @ ''_'' @ v)) fallback = takeWhile (\<lambda>x. x \<noteq> CHR ''_'') v"
    if "CHR ''_'' \<notin> set idx"
    using second_piece [OF that, of v]
    by (simp add: parseNumberFromLabel_def parseYesNo_def Let_def)
  have b: "takeWhile (\<lambda>x. x \<noteq> CHR ''_'') v = v" if "CHR ''_'' \<notin> set v"
    using that by (auto simp add: takeWhile_eq_all_conv)
  have c: "parseNumberFromLabel (Some w) fallback = w \<and> parseYesNo (Some w) fallback = w"
    if "CHR ''_'' \<notin> set w" "w \<noteq> []"
    using that by (simp add: parseNumberFromLabel_def parseYesNo_def Let_def str_split_no_sep)
  have d: "parseNumberFromLabel None fallback = fallback \<and> parseYesNo None fallback = fallback
   \<and> parseNumberFromLabel (Some []) fallback = fallback \<and> parseYesNo (Some []) fallback = fallback"
    by (simp add: parseNumberFromLabel_def parseYesNo_def)
  from a b c d show ?thesis by metis
qed

text \<open>The value \<open>Not_Urgent\<close> is cut at its underscore.\<close>

theorem label_decoding_counterexample:
  "parseNumberFromLabel (Some ''1_Not_Urgent'') ''Low'' = ''Not''
   \<and> parseYesNo (Some ''1_Not_Urgent'') ''No'' = ''Not''
   \<and> ''Not'' \<noteq> ''Not_Urgent''"
  by (simp add: parseNumberFromLabel_def parseYesNo_def)

theorem label_decoding_witness:
  "CHR ''_'' \<notin> set ''1'' \<and> CHR ''_'' \<notin> set ''High''
   \<and> parseNumberFromLabel (Some ''1_High'') ''Low'' = ''High''
   \<and> parseYesNo (Some ''0_Yes_please'') ''No'' = ''Yes''
   \<and> parseNumberFromLabel (Some ''Billing'') ''General'' = ''Billing''
   \<and> parseNumberFromLabel None ''General'' = ''General''"
proof -
  have h1: "CHR ''_'' \<notin> set ''1''" and h2: "CHR ''_'' \<notin> set ''High''"
    and h3: "CHR ''_'' \<notin> set ''0''" and h4: "CHR ''_'' \<notin> set ''Billing'' \<and> ''Billing'' \<noteq> []"
    by simp_all
  have "parseNumberFromLabel (Some (''1'' @ ''_'' @ ''High'')) ''Low'' = ''High''"
    using label_decoding [of "''1''" "''High''" "''Low''" "''Billing''"] h1 h2 by blast
  moreover have "parseYesNo (Some (''0'' @ ''_'' @ ''Yes_please'')) ''No''
      = takeWhile (\<lambda>x. x \<noteq> CHR ''_'') ''Yes_please''"
    using label_decoding [of "''0''" "''Yes_please''" "''No''" "''Billing''"] h3 by blast
  moreover have "parseNumberFromLabel (Some ''Billing'') ''General'' = ''Billing''
      \<and> parseNumberFromLabel None ''General'' = ''General''"
    using label_decoding [of "''1''" "''High''" "''General''" "''Billing''"] h4 by blast
  ultimately show ?thesis using h1 h2 by simp
qed

section \<open>Proofs: knowledge lookup\<close>








lemma length_trim: "length (trim s) \<le> length s"
proof -
  have "length (trim s) \<le> length (dropWhile isWhiteSpace s)"
    unfolding trim_def by (metis length_dropWhile_le length_rev)
  also have "\<dots> \<le> length s" by (rule length_dropWhile_le)
  finally show ?thesis .
qed

lemma short_replyText: "llm_result = Message (Some t) \<Longrightarrow> length t < 4 \<Longrightarrow> length (replyText llm_result) < 4"
  using length_trim [of t] by (simp add: replyText_def)











section \<open>Proofs: the store\<close>

lemma first_index_Some:
  "first_index P xs = Some i \<Longrightarrow> i < length xs \<and> P (xs ! i) \<and> (\<forall>j<i. \<not> P (xs ! j))"
proof (induction xs arbitrary: i)
  case Nil
  then show ?case by simp
next
  case (Cons x xs)
  show ?case
  proof (cases "P x")
    case True
    with Cons.prems show ?thesis by simp
  next
    case False
    with Cons.prems obtain k where k: "first_index P xs = Some k" "i = Suc k" by auto
    from Cons.IH [OF k(1)] False k(2) show ?thesis by (auto simp: less_Suc_eq_0_disj)
  qed
qed

lemma first_index_None: "first_index P xs = None \<longleftrightarrow> (\<forall>x\<in>set xs. \<not> P x)"
  by (induction xs) auto

lemma first_index_exists:
  "\<exists>x\<in>set xs. P x \<Longrightarrow> \<exists>i. first_index P xs = Some i"
  using first_index_None [of P xs] by (cases "first_index P xs") auto

lemma first_index_append_new:
  "first_index P xs = None \<Longrightarrow> P x \<Longrightarrow> first_index P (xs @ [x]) = Some (length xs)"
  by (induction xs) (auto split: if_splits)

lemma first_index_cong:
  "length ys = length xs \<Longrightarrow> (\<And>i. i < length xs \<Longrightarrow> P (ys ! i) = P (xs ! i))
     \<Longrightarrow> first_index P ys = first_index P xs"
proof (induction xs arbitrary: ys)
  case Nil
  then show ?case by simp
next
  case (Cons x xs)
  then obtain y ys' where ys: "ys = y # ys'" by (cases ys) auto
  have h: "P y = P x" using Cons.prems(2) [of 0] ys by simp
  have "first_index P ys' = first_index P xs"
  proof (rule Cons.IH)
    show "length ys' = length xs" using Cons.prems(1) ys by simp
    fix i assume "i < length xs"
    then show "P (ys' ! i) = P (xs ! i)" using Cons.prems(2) [of "Suc i"] ys by simp
  qed
  with h ys show ?case by simp
qed


lemma notify_fields [simp]:
  "PoC (createNotification now r f m ev refs s) = PoC s"
  "Chat (createNotification now r f m ev refs s) = Chat s"
  "Patients (createNotification now r f m ev refs s) = Patients s"
  "Organisation (createNotification now r f m ev refs s) = Organisation s"
  "Appointment (createNotification now r f m ev refs s) = Appointment s"
  "Ticket (createNotification now r f m ev refs s) = Ticket s"
  "Checkin (createNotification now r f m ev refs s) = Checkin s"
  "organizationConfigs (createNotification now r f m ev refs s) = organizationConfigs s"
  "sent (createNotification now r f m ev refs s) = sent s"
  "openaiRequests (createNotification now r f m ev refs s) = openaiRequests s"
  by (simp_all add: createNotification_def Let_def split: option.splits)

lemma lastSeen_fields [simp]:
  "length (PoC (updatePoCLastSeen now r s)) = length (PoC s)"
  "Chat (updatePoCLastSeen now r s) = Chat s"
  "Patients (updatePoCLastSeen now r s) = Patients s"
  "Organisation (updatePoCLastSeen now r s) = Organisation s"
  "Appointment (updatePoCLastSeen now r s) = Appointment s"
  "Ticket (updatePoCLastSeen now r s) = Ticket s"
  "Checkin (updatePoCLastSeen now r s) = Checkin s"
  "Notifications (updatePoCLastSeen now r s) = Notifications s"
  "organizationConfigs (updatePoCLastSeen now r s) = organizationConfigs s"
  "sent (updatePoCLastSeen now r s) = sent s"
  "openaiRequests (updatePoCLastSeen now r s) = openaiRequests s"
  by (simp_all add: updatePoCLastSeen_def)

lemma send_fields [simp]:
  "PoC (sendWhatsAppMessage to m t s) = PoC s"
  "Chat (sendWhatsAppMessage to m t s) = Chat s"
  "Patients (sendWhatsAppMessage to m t s) = Patients s"
  "Organisation (sendWhatsAppMessage to m t s) = Organisation s"
  "Appointment (sendWhatsAppMessage to m t s) = Appointment s"
  "Ticket (sendWhatsAppMessage to m t s) = Ticket s"
  "Checkin (sendWhatsAppMessage to m t s) = Checkin s"
  "Notifications (sendWhatsAppMessage to m t s) = Notifications s"
  "openaiRequests (sendWhatsAppMessage to m t s) = openaiRequests s"
  by (simp_all add: sendWhatsAppMessage_def loadOrganizationConfig_def Let_def split: option.splits)

lemma welcome_fields [simp]:
  "PoC (sendWelcomeTemplate to n t s) = PoC s"
  "Chat (sendWelcomeTemplate to n t s) = Chat s"
  "Patients (sendWelcomeTemplate to n t s) = Patients s"
  "Organisation (sendWelcomeTemplate to n t s) = Organisation s"
  "Appointment (sendWelcomeTemplate to n t s) = Appointment s"
  "Ticket (sendWelcomeTemplate to n t s) = Ticket s"
  "Checkin (sendWelcomeTemplate to n t s) = Checkin s"
  "Notifications (sendWelcomeTemplate to n t s) = Notifications s"
  "openaiRequests (sendWelcomeTemplate to n t s) = openaiRequests s"
  by (simp_all add: sendWelcomeTemplate_def loadOrganizationConfig_def Let_def split: option.splits)

lemma saveChat_fields [simp]:
  "length (PoC (saveChatToPoC now r d f to ty b x s)) = length (PoC s)"
  "Patients (saveChatToPoC now r d f to ty b x s) = Patients s"
  "Organisation (saveChatToPoC now r d f to ty b x s) = Organisation s"
  "Appointment (saveChatToPoC now r d f to ty b x s) = Appointment s"
  "Ticket (saveChatToPoC now r d f to ty b x s) = Ticket s"
  "Checkin (saveChatToPoC now r d f to ty b x s) = Checkin s"
  "Notifications (saveChatToPoC now r d f to ty b x s) = Notifications s"
  "organizationConfigs (saveChatToPoC now r d f to ty b x s) = organizationConfigs s"
  "sent (saveChatToPoC now r d f to ty b x s) = sent s"
  "openaiRequests (saveChatToPoC now r d f to ty b x s) = openaiRequests s"
  by (simp_all add: saveChatToPoC_def Let_def)

subsection \<open>Transcripts only grow\<close>

lemma saveChat_Chat:
  "Chat (saveChatToPoC now r d f to ty b x s) r' =
     (if r' = r
      then Chat s r @
        [\<lparr>chat_Direction = d, chat_From = f, chat_To = to, chat_Msg_Type = ty,
          chat_Msg_Body =
            (let t = (case b of None \<Rightarrow> [] | Some v \<Rightarrow> v)
             in if length t > 300 then take 300 t @ ''...(truncated)'' else t),
          chat_Timestamp = now, chat_Msg_Image = x\<rparr>]
      else Chat s r')"
  by (simp add: saveChatToPoC_def Let_def)


lemma checkin_Chat [simp]: "Chat (createCheckinDoc now rand r p t s) = Chat s"
  by (simp add: createCheckinDoc_def Let_def split: option.splits)

lemma feedback_Chat [simp]: "Chat (updateAppointmentFeedback now fd t s) = Chat s"
  by (simp add: updateAppointmentFeedback_def Let_def split: option.splits)

lemma register_frame:
  "Chat (processWelcomeFormSubmission e r fd t s) = Chat s
   \<and> length (PoC (processWelcomeFormSubmission e r fd t s)) = length (PoC s)
   \<and> (\<forall>r'. r' \<noteq> r \<longrightarrow> PoC (processWelcomeFormSubmission e r fd t s) ! r' = PoC s ! r')
   \<and> (r < length (PoC s) \<longrightarrow>
        poc_registered (PoC (processWelcomeFormSubmission e r fd t s) ! r) = Some True
        \<and> poc_Phone (PoC (processWelcomeFormSubmission e r fd t s) ! r) = poc_Phone (PoC s ! r)
        \<and> poc_addedBy (PoC (processWelcomeFormSubmission e r fd t s) ! r) = poc_addedBy (PoC s ! r))
   \<and> Appointment (processWelcomeFormSubmission e r fd t s) = Appointment s
   \<and> Ticket (processWelcomeFormSubmission e r fd t s) = Ticket s
   \<and> Checkin (processWelcomeFormSubmission e r fd t s) = Checkin s
   \<and> sent (processWelcomeFormSubmission e r fd t s) = sent s
   \<and> openaiRequests (processWelcomeFormSubmission e r fd t s) = openaiRequests s
   \<and> organizationConfigs (processWelcomeFormSubmission e r fd t s) = organizationConfigs s
   \<and> Organisation (processWelcomeFormSubmission e r fd t s) = Organisation s"
proof -
  define fullName where "fullName = fieldOr fd ''screen_0_Full_Name_0''"
  define genderVal where "genderVal = fieldOr fd ''screen_0_Gender_1''"
  define dobValue where "dobValue = fieldOr fd ''screen_0_DOB_2''"
  define address where "address = fieldOr fd ''screen_0_Address_3''"
  define gender where
    "gender = (if genderVal \<noteq> [] then
               (let parts = str_split CHR ''_'' genderVal
                in if length parts > 1 then or_else (parts ! 1) ''NA'' else ''NA'')
             else ''NA'')"
  define dobTs where "dobTs = (if dobValue \<noteq> [] then env_parseDate e dobValue else None)"
  define age where "age = (case dobTs of None \<Rightarrow> 0 | Some d \<Rightarrow> env_age e d)"
  define s1 where
    "s1 = s\<lparr>PoC := (PoC s)[r := (PoC s ! r)
                       \<lparr>poc_Name := fullName, poc_Gender := Some gender, poc_DOB := dobTs,
                        poc_Address := Some address, poc_Age := Some age,
                        poc_registered := Some True, poc_updatedAt := Some (env_now e)\<rparr>]\<rparr>"
  define s2 where
    "s2 = (case Patients s1 r of
                       [] \<Rightarrow> s1
                     | p # ps \<Rightarrow>
                         s1\<lparr>Patients := (Patients s1)(r :=
                              p\<lparr>pat_Name := fullName, pat_Gender := gender, pat_DOB := dobTs,
                                pat_Age := age, pat_updatedAt := Some (env_now e)\<rparr> # ps)\<rparr>)"
  define s3 where
    "s3 = (case getOrganisationRef t s2 of
                None \<Rightarrow> s2
              | Some orgRef \<Rightarrow>
                  let userPhone = or_else (poc_Phone (PoC s2 ! r)) ''Unknown''
                  in createNotification (env_now e) (Some orgRef) userPhone
                       (''New user '' @ fullName @ '' completed registration'') ''Registration''
                       [(''PoCRef'', RefPoC r),
                        (''userData'',
                           Obj [(''name'', Str fullName), (''gender'', Str gender),
                                (''age'', Num age), (''address'', Str address)])] s2)"
  have eq: "processWelcomeFormSubmission e r fd t s = (if \<not> r < length (PoC s) then s else s3)"
    unfolding processWelcomeFormSubmission_def fullName_def genderVal_def dobValue_def
      address_def gender_def dobTs_def age_def s1_def s2_def s3_def
    by (simp only: Let_def)
  have f2: "Chat s2 = Chat s" "PoC s2 = PoC s1" "Appointment s2 = Appointment s"
    "Ticket s2 = Ticket s" "Checkin s2 = Checkin s" "sent s2 = sent s"
    "openaiRequests s2 = openaiRequests s" "organizationConfigs s2 = organizationConfigs s"
    "Organisation s2 = Organisation s"
    by (simp_all add: s2_def s1_def split: list.splits)
  have f3: "Chat s3 = Chat s" "PoC s3 = PoC s1" "Appointment s3 = Appointment s"
    "Ticket s3 = Ticket s" "Checkin s3 = Checkin s" "sent s3 = sent s"
    "openaiRequests s3 = openaiRequests s" "organizationConfigs s3 = organizationConfigs s"
    "Organisation s3 = Organisation s"
    by (simp_all add: s3_def f2 Let_def split: option.splits)
  have p1: "PoC s1 = (PoC s)[r := (PoC s ! r)
                       \<lparr>poc_Name := fullName, poc_Gender := Some gender, poc_DOB := dobTs,
                        poc_Address := Some address, poc_Age := Some age,
                        poc_registered := Some True, poc_updatedAt := Some (env_now e)\<rparr>]"
    by (simp add: s1_def)
  show ?thesis
    by (simp add: eq f3 p1)
qed

lemma register_Chat [simp]: "Chat (processWelcomeFormSubmission e r fd t s) = Chat s"
  using register_frame [of e r fd t s] by blast

lemma ticket_Chat [simp]: "Chat (createSupportTicket e r fd t s) = Chat s"
  by (simp add: createSupportTicket_def Let_def split: option.splits)

lemma chatState_Chat [simp]: "Chat (setChatState r ms s) = Chat s"
  by (simp add: setChatState_def)

lemma newMessage_Chat [simp]: "Chat (notifyNewMessage now t f r u s) = Chat s"
  by (simp add: notifyNewMessage_def Let_def split: option.splits)

lemma saveChat_prefix: "prefix (Chat s r') (Chat (saveChatToPoC now r d f to ty b x s) r')"
  by (simp add: saveChat_Chat)




lemma botReply_off:
  assumes "r < length (PoC s)" "poc_BotMode (PoC s ! r) = Some False"
  shows "botReply e t c f r u s = (200, s)"
  using assms by (simp add: botReply_def)











subsection \<open>Contacts\<close>

lemma contact_found:
  assumes "first_index (\<lambda>d. poc_Phone d = p \<and> poc_addedBy d = Some t) (PoC s) = Some r"
  shows "getOrCreatePoCByPhone now p n t s
           = (r, s\<lparr>PoC := (PoC s)[r := (PoC s ! r)\<lparr>poc_lastSeen := Some now\<rparr>]\<rparr>)"
proof -
  from first_index_Some [OF assms] have "r < length (PoC s)" by simp
  then show ?thesis
    using assms by (simp add: getOrCreatePoCByPhone_def updatePoCLastSeen_def)
qed

lemma contact_new:
  assumes "first_index (\<lambda>d. poc_Phone d = p \<and> poc_addedBy d = Some t) (PoC s) = None"
  shows "fst (getOrCreatePoCByPhone now p n t s) = length (PoC s)"
    and "PoC (snd (getOrCreatePoCByPhone now p n t s)) = PoC s @ [newPoC now p n t]"
  using assms
  by (simp_all add: getOrCreatePoCByPhone_def Let_def newPoC_def split: option.splits)


lemma contact_result:
  "fst (getOrCreatePoCByPhone now p n t s) < length (PoC (snd (getOrCreatePoCByPhone now p n t s)))
   \<and> poc_Phone (PoC (snd (getOrCreatePoCByPhone now p n t s)) ! fst (getOrCreatePoCByPhone now p n t s)) = p
   \<and> poc_addedBy (PoC (snd (getOrCreatePoCByPhone now p n t s)) ! fst (getOrCreatePoCByPhone now p n t s)) = Some t
   \<and> length (PoC s) \<le> length (PoC (snd (getOrCreatePoCByPhone now p n t s)))"
proof (cases "first_index (\<lambda>d. poc_Phone d = p \<and> poc_addedBy d = Some t) (PoC s)")
  case None
  from contact_new [OF None, of now n] show ?thesis by (simp add: newPoC_def)
next
  case (Some r)
  from first_index_Some [OF Some] contact_found [OF Some, of now n] show ?thesis by simp
qed

lemma contact_keeps:
  assumes "i < length (PoC s)"
  shows "poc_Phone (PoC (snd (getOrCreatePoCByPhone now p n t s)) ! i) = poc_Phone (PoC s ! i)
   \<and> poc_addedBy (PoC (snd (getOrCreatePoCByPhone now p n t s)) ! i) = poc_addedBy (PoC s ! i)
   \<and> poc_registered (PoC (snd (getOrCreatePoCByPhone now p n t s)) ! i) = poc_registered (PoC s ! i)
   \<and> poc_chatState (PoC (snd (getOrCreatePoCByPhone now p n t s)) ! i) = poc_chatState (PoC s ! i)
   \<and> poc_BotMode (PoC (snd (getOrCreatePoCByPhone now p n t s)) ! i) = poc_BotMode (PoC s ! i)"
proof (cases "first_index (\<lambda>d. poc_Phone d = p \<and> poc_addedBy d = Some t) (PoC s)")
  case None
  from contact_new(2) [OF None, of now n] assms show ?thesis by (simp add: nth_append)
next
  case (Some r)
  from contact_found [OF Some, of now n] assms show ?thesis
    by (cases "i = r") simp_all
qed

lemma contact_again:
  "getOrCreatePoCByPhone now' p n' t (snd (getOrCreatePoCByPhone now p n t s))
     = (fst (getOrCreatePoCByPhone now p n t s),
        (snd (getOrCreatePoCByPhone now p n t s))
          \<lparr>PoC := (PoC (snd (getOrCreatePoCByPhone now p n t s)))
             [fst (getOrCreatePoCByPhone now p n t s) :=
                (PoC (snd (getOrCreatePoCByPhone now p n t s)) ! fst (getOrCreatePoCByPhone now p n t s))
                  \<lparr>poc_lastSeen := Some now'\<rparr>]\<rparr>)"
proof (cases "first_index (\<lambda>d. poc_Phone d = p \<and> poc_addedBy d = Some t) (PoC s)")
  case None
  let ?s1 = "snd (getOrCreatePoCByPhone now p n t s)"
  have "first_index (\<lambda>d. poc_Phone d = p \<and> poc_addedBy d = Some t) (PoC ?s1)
      = Some (length (PoC s))"
    unfolding contact_new(2) [OF None]
    by (rule first_index_append_new [OF None]) (simp add: newPoC_def)
  from contact_found [OF this, of now' n'] contact_new(1) [OF None, of now n]
  show ?thesis by simp
next
  case (Some r)
  let ?s1 = "snd (getOrCreatePoCByPhone now p n t s)"
  have r: "r < length (PoC s)" using first_index_Some [OF Some] by simp
  have s1: "getOrCreatePoCByPhone now p n t s
      = (r, s\<lparr>PoC := (PoC s)[r := (PoC s ! r)\<lparr>poc_lastSeen := Some now\<rparr>]\<rparr>)"
    by (rule contact_found [OF Some])
  have "first_index (\<lambda>d. poc_Phone d = p \<and> poc_addedBy d = Some t) (PoC ?s1)
      = first_index (\<lambda>d. poc_Phone d = p \<and> poc_addedBy d = Some t) (PoC s)"
  proof (rule first_index_cong)
    show "length (PoC ?s1) = length (PoC s)" by (simp add: s1)
    fix i assume "i < length (PoC s)"
    then show "(poc_Phone (PoC ?s1 ! i) = p \<and> poc_addedBy (PoC ?s1 ! i) = Some t)
        = (poc_Phone (PoC s ! i) = p \<and> poc_addedBy (PoC s ! i) = Some t)"
      by (cases "i = r") (simp_all add: s1)
  qed
  then have "first_index (\<lambda>d. poc_Phone d = p \<and> poc_addedBy d = Some t) (PoC ?s1) = Some r"
    by (simp add: Some)
  from contact_found [OF this, of now' n'] show ?thesis by (simp add: s1)
qed

text \<open>
  Claim C2. When a contact for the phone and the tenant exists, \<open>getOrCreatePoCByPhone\<close>
  returns the reference of such a contact and changes nothing in the store but that
  contact's last-seen time: the collections of contacts, patients and notifications and
  the list of sent messages are as before. Called twice in succession on any store, the
  second call returns the reference of the first and again only updates last-seen.
\<close>

theorem contact_creation_idempotent:
  "((\<exists>d\<in>set (PoC s). poc_Phone d = phone \<and> poc_addedBy d = Some orgId) \<longrightarrow>
      (\<exists>r. r < length (PoC s) \<and> poc_Phone (PoC s ! r) = phone
          \<and> poc_addedBy (PoC s ! r) = Some orgId
          \<and> getOrCreatePoCByPhone now phone contactName orgId s
              = (r, s\<lparr>PoC := (PoC s)[r := (PoC s ! r)\<lparr>poc_lastSeen := Some now\<rparr>]\<rparr>)))
   \<and> (case getOrCreatePoCByPhone now phone contactName orgId s of
        (r1, s1) \<Rightarrow>
          (case getOrCreatePoCByPhone now' phone contactName' orgId s1 of
             (r2, s2) \<Rightarrow>
               r2 = r1
               \<and> s2 = s1\<lparr>PoC := (PoC s1)[r1 := (PoC s1 ! r1)\<lparr>poc_lastSeen := Some now'\<rparr>]\<rparr>
               \<and> length (PoC s2) = length (PoC s1)
               \<and> Patients s2 = Patients s1
               \<and> Notifications s2 = Notifications s1
               \<and> sent s2 = sent s1))"
proof (intro conjI impI)
  assume "\<exists>d\<in>set (PoC s). poc_Phone d = phone \<and> poc_addedBy d = Some orgId"
  then obtain r where
    r: "first_index (\<lambda>d. poc_Phone d = phone \<and> poc_addedBy d = Some orgId) (PoC s) = Some r"
    using first_index_exists [of "PoC s" "\<lambda>d. poc_Phone d = phone \<and> poc_addedBy d = Some orgId"]
    by blast
  from first_index_Some [OF r] contact_found [OF r, of now contactName]
  show "\<exists>r. r < length (PoC s) \<and> poc_Phone (PoC s ! r) = phone
          \<and> poc_addedBy (PoC s ! r) = Some orgId
          \<and> getOrCreatePoCByPhone now phone contactName orgId s
              = (r, s\<lparr>PoC := (PoC s)[r := (PoC s ! r)\<lparr>poc_lastSeen := Some now\<rparr>]\<rparr>)"
    by blast
next
  show "case getOrCreatePoCByPhone now phone contactName orgId s of
        (r1, s1) \<Rightarrow>
          (case getOrCreatePoCByPhone now' phone contactName' orgId s1 of
             (r2, s2) \<Rightarrow>
               r2 = r1
               \<and> s2 = s1\<lparr>PoC := (PoC s1)[r1 := (PoC s1 ! r1)\<lparr>poc_lastSeen := Some now'\<rparr>]\<rparr>
               \<and> length (PoC s2) = length (PoC s1)
               \<and> Patients s2 = Patients s1
               \<and> Notifications s2 = Notifications s1
               \<and> sent s2 = sent s1)"
    using contact_again [of now' phone contactName' orgId now contactName s]
    by (simp add: case_prod_beta)
qed


theorem contact_creation_idempotent_witness:
  "fst (getOrCreatePoCByPhone 10 ''911'' ''Asha'' ''Acme'' acmeStore) = 0
   \<and> getOrCreatePoCByPhone 20 ''911'' ''Asha'' ''Acme''
        (snd (getOrCreatePoCByPhone 10 ''911'' ''Asha'' ''Acme'' acmeStore))
      = (0, (snd (getOrCreatePoCByPhone 10 ''911'' ''Asha'' ''Acme'' acmeStore))
              \<lparr>PoC := [(newPoC 10 ''911'' ''Asha'' ''Acme'')\<lparr>poc_lastSeen := Some 20\<rparr>]\<rparr>)
   \<and> length (sent (snd (getOrCreatePoCByPhone 10 ''911'' ''Asha'' ''Acme'' acmeStore))) = 1
   \<and> length (Notifications (snd (getOrCreatePoCByPhone 10 ''911'' ''Asha'' ''Acme'' acmeStore)) 0) = 1"
proof -
  let ?s1 = "snd (getOrCreatePoCByPhone 10 ''911'' ''Asha'' ''Acme'' acmeStore)"
  have none: "first_index (\<lambda>d. poc_Phone d = ''911'' \<and> poc_addedBy d = Some ''Acme'') (PoC acmeStore) = None"
    by (simp add: acmeStore_def emptyStore_def)
  have p0: "PoC acmeStore = []" by (simp add: acmeStore_def emptyStore_def)
  have r1: "fst (getOrCreatePoCByPhone 10 ''911'' ''Asha'' ''Acme'' acmeStore) = 0"
    using contact_new(1) [OF none, of 10 "''Asha''"] by (simp add: p0)
  have p1: "PoC ?s1 = [newPoC 10 ''911'' ''Asha'' ''Acme'']"
    using contact_new(2) [OF none, of 10 "''Asha''"] by (simp add: p0)
  have ex: "\<exists>d\<in>set (PoC ?s1). poc_Phone d = ''911'' \<and> poc_addedBy d = Some ''Acme''"
    by (simp add: p1 newPoC_def)
  from contact_creation_idempotent [of ?s1 "''911''" "''Acme''" 20 "''Asha''" 30 "''Asha''"] ex
  obtain r where r: "r < length (PoC ?s1)"
    and g: "getOrCreatePoCByPhone 20 ''911'' ''Asha'' ''Acme'' ?s1
        = (r, ?s1\<lparr>PoC := (PoC ?s1)[r := (PoC ?s1 ! r)\<lparr>poc_lastSeen := Some 20\<rparr>]\<rparr>)"
    by blast
  from r have "r = 0" by (simp add: p1)
  with g have g0: "getOrCreatePoCByPhone 20 ''911'' ''Asha'' ''Acme'' ?s1
      = (0, ?s1\<lparr>PoC := [(newPoC 10 ''911'' ''Asha'' ''Acme'')\<lparr>poc_lastSeen := Some 20\<rparr>]\<rparr>)"
    by (simp add: p1)
  have s: "length (sent ?s1) = 1"
    by code_simp
  have n: "length (Notifications ?s1 0) = 1"
    by code_simp
  from r1 g0 s n show ?thesis by (intro conjI)
qed


lemma saveChat_PoC_other:
  "r' \<noteq> r \<Longrightarrow> PoC (saveChatToPoC now r d f to ty b x s) ! r' = PoC s ! r'"
  by (simp add: saveChatToPoC_def updatePoCLastSeen_def Let_def)


lemma two_tenants:
  assumes "t1 \<noteq> t2"
  shows "fst (getOrCreatePoCByPhone now p n1 t1 s)
       \<noteq> fst (getOrCreatePoCByPhone now' p n2 t2 (snd (getOrCreatePoCByPhone now p n1 t1 s)))
   \<and> fst (getOrCreatePoCByPhone now p n1 t1 s)
       < length (PoC (snd (getOrCreatePoCByPhone now' p n2 t2 (snd (getOrCreatePoCByPhone now p n1 t1 s)))))
   \<and> poc_Phone (PoC (snd (getOrCreatePoCByPhone now' p n2 t2 (snd (getOrCreatePoCByPhone now p n1 t1 s))))
        ! fst (getOrCreatePoCByPhone now p n1 t1 s)) = p
   \<and> poc_addedBy (PoC (snd (getOrCreatePoCByPhone now' p n2 t2 (snd (getOrCreatePoCByPhone now p n1 t1 s))))
        ! fst (getOrCreatePoCByPhone now p n1 t1 s)) = Some t1"
proof -
  let ?g1 = "getOrCreatePoCByPhone now p n1 t1 s"
  let ?g2 = "getOrCreatePoCByPhone now' p n2 t2 (snd ?g1)"
  note a = contact_result [of now p n1 t1 s]
  note b = contact_result [of now' p n2 t2 "snd ?g1"]
  from a have lt: "fst ?g1 < length (PoC (snd ?g1))" by simp
  note k = contact_keeps [OF lt, of now' p n2 t2]
  from k a have t1: "poc_addedBy (PoC (snd ?g2) ! fst ?g1) = Some t1"
    and ph: "poc_Phone (PoC (snd ?g2) ! fst ?g1) = p" by simp_all
  from b have t2: "poc_addedBy (PoC (snd ?g2) ! fst ?g2) = Some t2" by simp
  from t1 t2 assms have "fst ?g1 \<noteq> fst ?g2" by auto
  moreover from lt b have "fst ?g1 < length (PoC (snd ?g2))" by simp
  ultimately show ?thesis using t1 ph by simp
qed

text \<open>
  Claim C1. For one phone number and two different tenants, the contacts that
  \<open>getOrCreatePoCByPhone\<close> yields are two different documents of the store, each with this
  phone number and with its own tenant in \<^verbatim>\<open>addedBy\<close>: the lookup is keyed on the pair. A
  contact that is created carries the tenant it was created under, is unregistered, and is
  a new document. Transcripts and registration are kept per document: storing a message
  for one contact, or registering one contact, leaves the transcript and the registered
  flag of every other contact as they were.
\<close>

theorem tenant_isolation:
  "(ta \<noteq> tb \<longrightarrow>
      (case getOrCreatePoCByPhone now p na ta s of
         (r1, s1) \<Rightarrow>
           (case getOrCreatePoCByPhone now' p nb tb s1 of
              (r2, s2) \<Rightarrow>
                r1 \<noteq> r2 \<and> r1 < length (PoC s2) \<and> r2 < length (PoC s2)
                \<and> poc_Phone (PoC s2 ! r1) = p \<and> poc_addedBy (PoC s2 ! r1) = Some ta
                \<and> poc_Phone (PoC s2 ! r2) = p \<and> poc_addedBy (PoC s2 ! r2) = Some tb)))
   \<and> (\<not> (\<exists>d\<in>set (PoC s). poc_Phone d = p \<and> poc_addedBy d = Some t) \<longrightarrow>
        fst (getOrCreatePoCByPhone now p n t s) = length (PoC s)
        \<and> PoC (snd (getOrCreatePoCByPhone now p n t s)) = PoC s @ [newPoC now p n t]
        \<and> poc_addedBy (newPoC now p n t) = Some t
        \<and> poc_registered (newPoC now p n t) = Some False)
   \<and> (r \<noteq> r' \<longrightarrow>
        Chat (saveChatToPoC now r direction from to msgType msgBody extraImage s) r' = Chat s r'
        \<and> poc_registered (PoC (saveChatToPoC now r direction from to msgType msgBody extraImage s) ! r')
            = poc_registered (PoC s ! r')
        \<and> Chat (processWelcomeFormSubmission e r flowData t s) r' = Chat s r'
        \<and> poc_registered (PoC (processWelcomeFormSubmission e r flowData t s) ! r')
            = poc_registered (PoC s ! r'))
   \<and> (r < length (PoC s) \<longrightarrow>
        poc_registered (PoC (processWelcomeFormSubmission e r flowData t s) ! r) = Some True)"
proof (intro conjI impI)
  assume d: "ta \<noteq> tb"
  note a = two_tenants [OF d, of now p na s now' nb]
  note b = contact_result [of now' p nb tb "snd (getOrCreatePoCByPhone now p na ta s)"]
  from a b show "case getOrCreatePoCByPhone now p na ta s of
         (r1, s1) \<Rightarrow>
           (case getOrCreatePoCByPhone now' p nb tb s1 of
              (r2, s2) \<Rightarrow>
                r1 \<noteq> r2 \<and> r1 < length (PoC s2) \<and> r2 < length (PoC s2)
                \<and> poc_Phone (PoC s2 ! r1) = p \<and> poc_addedBy (PoC s2 ! r1) = Some ta
                \<and> poc_Phone (PoC s2 ! r2) = p \<and> poc_addedBy (PoC s2 ! r2) = Some tb)"
    by (simp add: case_prod_beta)
next
  assume "\<not> (\<exists>d\<in>set (PoC s). poc_Phone d = p \<and> poc_addedBy d = Some t)"
  then have none: "first_index (\<lambda>d. poc_Phone d = p \<and> poc_addedBy d = Some t) (PoC s) = None"
    by (simp add: first_index_None)
  show "fst (getOrCreatePoCByPhone now p n t s) = length (PoC s)"
    by (rule contact_new(1) [OF none])
  show "PoC (snd (getOrCreatePoCByPhone now p n t s)) = PoC s @ [newPoC now p n t]"
    by (rule contact_new(2) [OF none])
  show "poc_addedBy (newPoC now p n t) = Some t" by (simp add: newPoC_def)
  show "poc_registered (newPoC now p n t) = Some False" by (simp add: newPoC_def)
next
  assume ne: "r \<noteq> r'"
  show "Chat (saveChatToPoC now r direction from to msgType msgBody extraImage s) r' = Chat s r'"
    using ne by (simp add: saveChat_Chat)
  show "poc_registered (PoC (saveChatToPoC now r direction from to msgType msgBody extraImage s) ! r')
            = poc_registered (PoC s ! r')"
    using ne by (simp add: saveChat_PoC_other)
  show "Chat (processWelcomeFormSubmission e r flowData t s) r' = Chat s r'"
    by simp
  show "poc_registered (PoC (processWelcomeFormSubmission e r flowData t s) ! r')
            = poc_registered (PoC s ! r')"
    using register_frame [of e r flowData t s] ne by simp
next
  assume "r < length (PoC s)"
  then show "poc_registered (PoC (processWelcomeFormSubmission e r flowData t s) ! r) = Some True"
    using register_frame [of e r flowData t s] by simp
qed

theorem tenant_isolation_witness:
  "''Acme'' \<noteq> ''Other''
   \<and> fst (getOrCreatePoCByPhone 10 ''911'' ''Asha'' ''Acme'' acmeStore)
       \<noteq> fst (getOrCreatePoCByPhone 20 ''911'' ''Asha'' ''Other''
           (snd (getOrCreatePoCByPhone 10 ''911'' ''Asha'' ''Acme'' acmeStore)))
   \<and> fst (getOrCreatePoCByPhone 10 ''911'' ''Asha'' ''Acme'' acmeStore) = 0
   \<and> fst (getOrCreatePoCByPhone 20 ''911'' ''Asha'' ''Other''
        (snd (getOrCreatePoCByPhone 10 ''911'' ''Asha'' ''Acme'' acmeStore))) = 1
   \<and> map poc_addedBy (PoC (snd (getOrCreatePoCByPhone 20 ''911'' ''Asha'' ''Other''
        (snd (getOrCreatePoCByPhone 10 ''911'' ''Asha'' ''Acme'' acmeStore)))))
      = [Some ''Acme'', Some ''Other'']"
proof -
  let ?g1 = "getOrCreatePoCByPhone 10 ''911'' ''Asha'' ''Acme'' acmeStore"
  let ?g2 = "getOrCreatePoCByPhone 20 ''911'' ''Asha'' ''Other'' (snd ?g1)"
  have d: "''Acme'' \<noteq> ''Other''" by simp
  have p0: "PoC acmeStore = []" by (simp add: acmeStore_def emptyStore_def)
  have n1: "\<not> (\<exists>d\<in>set (PoC acmeStore). poc_Phone d = ''911'' \<and> poc_addedBy d = Some ''Acme'')"
    by (simp add: p0)
  from tenant_isolation [where s = acmeStore and p = "''911''" and t = "''Acme''"
      and now = 10 and n = "''Asha''"] n1
  have r1: "fst ?g1 = 0" and p1: "PoC (snd ?g1) = [newPoC 10 ''911'' ''Asha'' ''Acme'']"
    by (simp_all add: p0)
  have n2: "\<not> (\<exists>d\<in>set (PoC (snd ?g1)). poc_Phone d = ''911'' \<and> poc_addedBy d = Some ''Other'')"
    by (simp add: p1 newPoC_def)
  from tenant_isolation [where s = "snd ?g1" and p = "''911''" and t = "''Other''"
      and now = 20 and n = "''Asha''"] n2
  have r2: "fst ?g2 = 1"
    and p2: "PoC (snd ?g2) = [newPoC 10 ''911'' ''Asha'' ''Acme'', newPoC 20 ''911'' ''Asha'' ''Other'']"
    by (simp_all add: p1)
  from tenant_isolation [where s = acmeStore and p = "''911''" and ta = "''Acme''"
      and tb = "''Other''" and now = 10 and now' = 20 and na = "''Asha''" and nb = "''Asha''"] d
  have ne: "fst ?g1 \<noteq> fst ?g2"
    by (simp add: case_prod_beta)
  from d ne r1 r2 p2 show ?thesis by (simp add: newPoC_def)
qed

subsection \<open>Feedback\<close>









subsection \<open>Form dispatch\<close>

lemma contact_fields [simp]:
  "Appointment (snd (getOrCreatePoCByPhone now p n t s)) = Appointment s"
  "Ticket (snd (getOrCreatePoCByPhone now p n t s)) = Ticket s"
  "Checkin (snd (getOrCreatePoCByPhone now p n t s)) = Checkin s"
  "Organisation (snd (getOrCreatePoCByPhone now p n t s)) = Organisation s"
  "openaiRequests (snd (getOrCreatePoCByPhone now p n t s)) = openaiRequests s"
  by (simp_all add: getOrCreatePoCByPhone_def Let_def split: option.splits)





subsection \<open>Text messages: the check-in command\<close>













lemma newMessage_fields [simp]:
  "Checkin (notifyNewMessage now t f r u s) = Checkin s"
  "sent (notifyNewMessage now t f r u s) = sent s"
  "organizationConfigs (notifyNewMessage now t f r u s) = organizationConfigs s"
  "Organisation (notifyNewMessage now t f r u s) = Organisation s"
  "PoC (notifyNewMessage now t f r u s) = PoC s"
  by (simp_all add: notifyNewMessage_def Let_def split: option.splits)










end
